theory Spec2Isabelle
  imports Complex_Main
begin

section \<open>The network collaborator\<close>

text \<open>
  \<^verbatim>\<open>networkSet.py\<close> works on \<^verbatim>\<open>Network\<close> objects of \<^verbatim>\<open>network.py\<close>. A network
  carries its port count, its frequency axis, the s-matrix (an array of shape
  \<open>f \<times> n \<times> n\<close>, kept here as the list of its entries in row-major order) and an
  optional name. Numbers are exact: numpy's floats are read as reals and complex numbers.
\<close>

type_synonym array = "complex list"

type_synonym frequency = "real list"

record network =
  number_of_ports :: nat
  frequency :: frequency
  s :: array
  ntwk_name :: "string option"

text \<open>
  Python lists are untyped: an element of a list handed to \<^verbatim>\<open>NetworkSet\<close> is a
  \<^verbatim>\<open>Network\<close> or any other object. Of another object the model records the two
  attributes the constructor reads, each present or absent.
\<close>

datatype pyobj =
    Network network
  | Object "nat option" "frequency option"

datatype error =
    TypeError string
  | ValueError string
  | AttributeError string
  | IndexError string
  | IOError string

fun isinstance_Network :: "pyobj \<Rightarrow> bool" where
  "isinstance_Network (Network n) = True"
| "isinstance_Network (Object p f) = False"

text \<open>
  What \<^verbatim>\<open>network.py\<close>, \<^verbatim>\<open>frequency.py\<close> and \<^verbatim>\<open>mathFunctions.py\<close> compute is not
  part of \<^verbatim>\<open>networkSet.py\<close>; it is a parameter of every operation below:
  the equality of two frequency axes, the array-valued views of a network
  (\<^verbatim>\<open>s_re\<close>, \<^verbatim>\<open>s_mag\<close>, \<^verbatim>\<open>s_db\<close>, ...), \<^verbatim>\<open>Network.copy\<close>, the methods
  a network offers, its binary operators, and the reader of touchstone files.
  Any of them may raise.
\<close>

record 'a network_class =
  frequency_eq :: "frequency \<Rightarrow> frequency \<Rightarrow> bool"
  net_view :: "string \<Rightarrow> network \<Rightarrow> error + array"
  net_copy :: "network \<Rightarrow> network"
  net_method :: "string \<Rightarrow> 'a \<Rightarrow> network \<Rightarrow> error + pyobj"
  net_operator :: "string \<Rightarrow> network \<Rightarrow> pyobj \<Rightarrow> error + pyobj"
  read_touchstone :: "string \<Rightarrow> error + network"

text \<open>A list comprehension whose body may raise: the first exception ends it.\<close>

fun comprehension :: "('a \<Rightarrow> error + 'b) \<Rightarrow> 'a list \<Rightarrow> error + 'b list" where
  "comprehension f [] = Inr []"
| "comprehension f (x # xs) =
     (case f x of
        Inl e \<Rightarrow> Inl e
      | Inr y \<Rightarrow> (case comprehension f xs of Inl e \<Rightarrow> Inl e | Inr ys \<Rightarrow> Inr (y # ys)))"

fun get_number_of_ports :: "pyobj \<Rightarrow> error + nat" where
  "get_number_of_ports (Network n) = Inr (number_of_ports n)"
| "get_number_of_ports (Object p f) =
     (case p of None \<Rightarrow> Inl (AttributeError ''number_of_ports'') | Some k \<Rightarrow> Inr k)"

fun get_frequency :: "pyobj \<Rightarrow> error + frequency" where
  "get_frequency (Network n) = Inr (frequency n)"
| "get_frequency (Object p f) =
     (case f of None \<Rightarrow> Inl (AttributeError ''frequency'') | Some w \<Rightarrow> Inr w)"

text \<open>\<^verbatim>\<open>ntwk.__getattribute__(attribute)\<close> for an array-valued attribute.\<close>

fun getattribute :: "'a network_class \<Rightarrow> string \<Rightarrow> pyobj \<Rightarrow> error + array" where
  "getattribute N a (Network n) = (if a = ''s'' then Inr (s n) else net_view N a n)"
| "getattribute N a (Object p f) = Inl (AttributeError a)"

text \<open>\<^verbatim>\<open>ntwk.__getattribute__(operator_name)(other)\<close>.\<close>

fun call_operator :: "'a network_class \<Rightarrow> string \<Rightarrow> pyobj \<Rightarrow> pyobj \<Rightarrow> error + pyobj" where
  "call_operator N opn (Network n) other = net_operator N opn n other"
| "call_operator N opn (Object p f) other = Inl (AttributeError opn)"

text \<open>\<^verbatim>\<open>ntwk.__getattribute__(network_method_name)(*args, **kwargs)\<close>.\<close>

fun call_method :: "'a network_class \<Rightarrow> string \<Rightarrow> 'a \<Rightarrow> pyobj \<Rightarrow> error + pyobj" where
  "call_method N m args (Network n) = net_method N m args n"
| "call_method N m args (Object p f) = Inl (AttributeError m)"

section \<open>The class and what the constructor adds to it\<close>

text \<open>
  The constructor adds properties, methods and operators to the class
  \<^verbatim>\<open>NetworkSet\<close> with \<^verbatim>\<open>setattr(self.__class__, name, ...)\<close>. The class is the map from
  the names set this way to what was set: each is a closure over the arguments of the
  \<^verbatim>\<open>__add_a_...\<close> method that made it, so the arguments tell which closure it is.
\<close>

datatype reduction = Mean | Std

fun func_name :: "reduction \<Rightarrow> string" where
  "func_name Mean = ''mean''"
| "func_name Std = ''std''"

datatype class_attr =
    Func_On_Property reduction string
  | Plot_Uncertainty string
  | Element_Wise_Method string
  | Operator string

type_synonym class_dict = "string \<rightharpoonup> class_attr"

text \<open>The class as the \<^verbatim>\<open>class\<close> statement leaves it: nothing has been added yet.\<close>

definition class_definition :: class_dict where
  "class_definition = Map.empty"

definition add_a_operator :: "class_dict \<Rightarrow> string \<Rightarrow> class_dict" where
  "add_a_operator cls operator_name = cls(operator_name \<mapsto> Operator operator_name)"

definition add_a_element_wise_method :: "class_dict \<Rightarrow> string \<Rightarrow> class_dict" where
  "add_a_element_wise_method cls network_method_name =
     cls(network_method_name \<mapsto> Element_Wise_Method network_method_name)"

definition add_a_func_on_property :: "class_dict \<Rightarrow> reduction \<Rightarrow> string \<Rightarrow> class_dict" where
  "add_a_func_on_property cls func network_property_name =
     cls(func_name func @ ''_'' @ network_property_name
           \<mapsto> Func_On_Property func network_property_name)"

definition add_a_plot_uncertainty :: "class_dict \<Rightarrow> string \<Rightarrow> class_dict" where
  "add_a_plot_uncertainty cls network_property_name =
     cls(''plot_uncertainty_bounds_'' @ network_property_name
           \<mapsto> Plot_Uncertainty network_property_name)"

definition property_names :: "string list" where
  "property_names =
     [''s'', ''s_re'', ''s_im'', ''s_mag'', ''s_deg'', ''s_deg_unwrap'', ''s_rad'',
      ''s_rad_unwrap'', ''s_arcl'', ''s_arcl_unwrap'', ''passivity'']"

definition method_names :: "string list" where
  "method_names = [''write_touchstone'', ''interpolate'', ''plot_s_smith'']"

definition operator_names :: "string list" where
  "operator_names =
     [''__pow__'', ''__floordiv__'', ''__mul__'', ''__div__'', ''__add__'', ''__sub__'']"

text \<open>The body of the first loop of \<^verbatim>\<open>__init__\<close>, for one property name.\<close>

definition generate_for_property :: "string \<Rightarrow> class_dict \<Rightarrow> class_dict" where
  "generate_for_property network_property_name cls =
     add_a_element_wise_method
       (add_a_element_wise_method
          (add_a_plot_uncertainty
             (fold (\<lambda>func c. add_a_func_on_property c func network_property_name)
                [Mean, Std] cls)
             network_property_name)
          (''plot_'' @ network_property_name))
       ''plot_s_db''"

text \<open>The three loops that end \<^verbatim>\<open>__init__\<close>.\<close>

definition generate :: "class_dict \<Rightarrow> class_dict" where
  "generate cls =
     fold (\<lambda>operator_name c. add_a_operator c operator_name) operator_names
       (fold (\<lambda>network_method_name c. add_a_element_wise_method c network_method_name)
          method_names
          (fold generate_for_property property_names cls))"

section \<open>NetworkSet\<close>

record networkset =
  ntwk_set :: "pyobj list"
  name :: "string option"

text \<open>
  \<^verbatim>\<open>NetworkSet.__init__\<close>: the result and the class after the call. Every \<^verbatim>\<open>raise\<close>
  comes before the first \<^verbatim>\<open>setattr\<close>, so a failed call leaves the class as it was.
\<close>

definition NetworkSet_init ::
  "'a network_class \<Rightarrow> class_dict \<Rightarrow> pyobj list \<Rightarrow> string option
     \<Rightarrow> (error + networkset) \<times> class_dict" where
  "NetworkSet_init N cls ntwks nm =
     (case ntwks of
        [] \<Rightarrow> (Inl (IndexError ''list index out of range''), cls)
      | first # rest \<Rightarrow>
          (case first of
             Object p f \<Rightarrow> (Inl (TypeError ''input must be list of Network types''), cls)
           | Network n0 \<Rightarrow>
               (case comprehension get_number_of_ports ntwks of
                  Inl e \<Rightarrow> (Inl e, cls)
                | Inr ports \<Rightarrow>
                    if length (remdups ports) > 1
                    then (Inl (ValueError
                      ''All elements in list of Networks must have same number of ports''), cls)
                    else
                      (case comprehension
                              (\<lambda>ntwk. case get_frequency ntwk of
                                         Inl e \<Rightarrow> Inl e
                                       | Inr w \<Rightarrow> Inr (frequency_eq N (frequency n0) w))
                              ntwks of
                         Inl e \<Rightarrow> (Inl e, cls)
                       | Inr eqs \<Rightarrow>
                           if \<not> list_all (\<lambda>b. b) eqs
                           then (Inl (ValueError
                             ''All elements in list of Networks must have same frequency information''),
                             cls)
                           else (Inr \<lparr>ntwk_set = ntwks, name = nm\<rparr>, generate cls)))))"

section \<open>Reductions over the members\<close>

text \<open>
  \<^verbatim>\<open>npy.mean\<close> and \<^verbatim>\<open>npy.std\<close> of a one-dimensional array: the arithmetic mean, and
  the square root of the mean of the squared distances to it.
\<close>

definition npy_mean :: "complex list \<Rightarrow> complex" where
  "npy_mean xs = sum_list xs / of_nat (length xs)"

definition npy_std :: "complex list \<Rightarrow> complex" where
  "npy_std xs =
     of_real (sqrt (sum_list (map (\<lambda>x. (cmod (x - npy_mean xs))\<^sup>2) xs) / real (length xs)))"

fun apply_func :: "reduction \<Rightarrow> complex list \<Rightarrow> complex" where
  "apply_func Mean xs = npy_mean xs"
| "apply_func Std xs = npy_std xs"

text \<open>
  \<^verbatim>\<open>func(data_matrix, axis=0)\<close>, where \<^verbatim>\<open>data_matrix\<close> stacks one array per member
  along a new leading axis: entry \<open>i\<close> of the result is \<^verbatim>\<open>func\<close> of the entries \<open>i\<close> of
  the members. The arrays must have one shape, as the docstring of
  \<^verbatim>\<open>__add_a_func_on_property\<close> asks; numpy refuses to reduce a ragged stack.
\<close>

definition reduce_axis0 :: "reduction \<Rightarrow> array list \<Rightarrow> error + array" where
  "reduce_axis0 func data_matrix =
     (case data_matrix of
        [] \<Rightarrow> Inr []
      | a0 # rest \<Rightarrow>
          if list_all (\<lambda>a. length a = length a0) rest
          then Inr (map (\<lambda>i. apply_func func (map (\<lambda>a. a ! i) data_matrix)) [0..<length a0])
          else Inl (ValueError ''setting an array element with a sequence.''))"

text \<open>\<^verbatim>\<open>func_on_networks\<close>, also known as \<^verbatim>\<open>fon\<close>.\<close>

definition func_on_networks ::
  "'a network_class \<Rightarrow> pyobj list \<Rightarrow> reduction \<Rightarrow> string \<Rightarrow> string option \<Rightarrow> error + network" where
  "func_on_networks N ntwk_list func attribute nm =
     (case comprehension (getattribute N attribute) ntwk_list of
        Inl e \<Rightarrow> Inl e
      | Inr data_matrix \<Rightarrow>
          (case ntwk_list of
             [] \<Rightarrow> Inl (IndexError ''list index out of range'')
           | Object p f # rest \<Rightarrow> Inl (AttributeError ''copy'')
           | Network n0 # rest \<Rightarrow>
               (case reduce_axis0 func data_matrix of
                  Inl e \<Rightarrow> Inl e
                | Inr r \<Rightarrow>
                    (let new_ntwk = (net_copy N n0)\<lparr>s := r\<rparr>
                     in Inr (case nm of
                               None \<Rightarrow> new_ntwk
                             | Some x \<Rightarrow> new_ntwk\<lparr>ntwk_name := Some x\<rparr>)))))"

text \<open>
  Reading \<^verbatim>\<open>self.<nm>\<close> for a name the constructor added to the class. A generated
  property runs its \<^verbatim>\<open>fget\<close>, the call of \<^verbatim>\<open>fon\<close> with the function and the property
  name it closed over; any other generated attribute is a bound method, which is no
  network.
\<close>

definition getattr_generated ::
  "'a network_class \<Rightarrow> class_dict \<Rightarrow> networkset \<Rightarrow> string \<Rightarrow> error + pyobj" where
  "getattr_generated N cls self nm =
     (case cls nm of
        None \<Rightarrow> Inl (AttributeError nm)
      | Some (Func_On_Property func network_property_name) \<Rightarrow>
          (case func_on_networks N (ntwk_set self) func network_property_name (name self) of
             Inl e \<Rightarrow> Inl e
           | Inr ntwk \<Rightarrow> Inr (Network ntwk))
      | Some other \<Rightarrow> Inr (Object None None))"

text \<open>\<^verbatim>\<open>ntwk.s = ntwk.s_db\<close>, the second line of both decibel properties.\<close>

definition s_becomes_s_db :: "'a network_class \<Rightarrow> pyobj \<Rightarrow> error + pyobj" where
  "s_becomes_s_db N ntwk =
     (case getattribute N ''s_db'' ntwk of
        Inl e \<Rightarrow> Inl e
      | Inr d \<Rightarrow>
          (case ntwk of
             Network m \<Rightarrow> Inr (Network (m\<lparr>s := d\<rparr>))
           | Object p f \<Rightarrow> Inl (AttributeError ''s_db'')))"

definition mean_s_db :: "'a network_class \<Rightarrow> class_dict \<Rightarrow> networkset \<Rightarrow> error + pyobj" where
  "mean_s_db N cls self =
     (case getattr_generated N cls self ''mean_s_mag'' of
        Inl e \<Rightarrow> Inl e
      | Inr ntwk \<Rightarrow> s_becomes_s_db N ntwk)"

definition std_s_db :: "'a network_class \<Rightarrow> class_dict \<Rightarrow> networkset \<Rightarrow> error + pyobj" where
  "std_s_db N cls self =
     (case getattr_generated N cls self ''std_s_mag'' of
        Inl e \<Rightarrow> Inl e
      | Inr ntwk \<Rightarrow> s_becomes_s_db N ntwk)"

text \<open>
  \<^verbatim>\<open>self.__getattribute__('mean_'+attribute)\<close> and \<^verbatim>\<open>self.__getattribute__('std_'+attribute)\<close>:
  a name set on the class by \<^verbatim>\<open>setattr\<close> comes first; of the names of the class body
  only \<^verbatim>\<open>mean_s_db\<close> and \<^verbatim>\<open>std_s_db\<close> start this way.
\<close>

definition getattr_statistic ::
  "'a network_class \<Rightarrow> class_dict \<Rightarrow> networkset \<Rightarrow> string \<Rightarrow> error + pyobj" where
  "getattr_statistic N cls self nm =
     (case cls nm of
        Some a \<Rightarrow> getattr_generated N cls self nm
      | None \<Rightarrow>
          if nm = ''mean_s_db'' then mean_s_db N cls self
          else if nm = ''std_s_db'' then std_s_db N cls self
          else Inl (AttributeError nm))"

section \<open>Uncertainty bounds\<close>

text \<open>\<^verbatim>\<open>a + b\<close> and \<^verbatim>\<open>a - b\<close> of two objects: the operator of the left one.\<close>

definition binary :: "'a network_class \<Rightarrow> string \<Rightarrow> pyobj \<Rightarrow> pyobj \<Rightarrow> error + pyobj" where
  "binary N opn a b =
     (case a of
        Network n \<Rightarrow> net_operator N opn n b
      | Object p f \<Rightarrow> Inl (TypeError ''unsupported operand type(s)''))"

text \<open>\<^verbatim>\<open>ntwk_std.s = n_deviations * ntwk_std.s\<close>.\<close>

definition scale_s :: "real \<Rightarrow> pyobj \<Rightarrow> error + pyobj" where
  "scale_s n_deviations ntwk_std =
     (case ntwk_std of
        Network sd \<Rightarrow> Inr (Network (sd\<lparr>s := map (\<lambda>z. of_real n_deviations * z) (s sd)\<rparr>))
      | Object p f \<Rightarrow> Inl (AttributeError ''s''))"

text \<open>
  \<^verbatim>\<open>uncertainty_ntwk_triplet\<close>; the argument \<^verbatim>\<open>n_deviations\<close> is \<open>None\<close> when the
  caller leaves it out.
\<close>

definition uncertainty_ntwk_triplet ::
  "'a network_class \<Rightarrow> class_dict \<Rightarrow> networkset \<Rightarrow> string \<Rightarrow> real option
     \<Rightarrow> error + (pyobj \<times> pyobj \<times> pyobj)" where
  "uncertainty_ntwk_triplet N cls self attribute n_deviations =
     (let n = (case n_deviations of None \<Rightarrow> 3 | Some k \<Rightarrow> k) in
      case getattr_statistic N cls self (''mean_'' @ attribute) of
        Inl e \<Rightarrow> Inl e
      | Inr ntwk_mean \<Rightarrow>
          (case getattr_statistic N cls self (''std_'' @ attribute) of
             Inl e \<Rightarrow> Inl e
           | Inr ntwk_std0 \<Rightarrow>
               (case scale_s n ntwk_std0 of
                  Inl e \<Rightarrow> Inl e
                | Inr ntwk_std \<Rightarrow>
                    (case binary N ''__add__'' ntwk_mean ntwk_std of
                       Inl e \<Rightarrow> Inl e
                     | Inr upper_bound \<Rightarrow>
                         (case binary N ''__sub__'' ntwk_mean ntwk_std of
                            Inl e \<Rightarrow> Inl e
                          | Inr lower_bound \<Rightarrow>
                              Inr (ntwk_mean, lower_bound, upper_bound))))))"

section \<open>Binary operators\<close>

text \<open>The right operand of an operator: a \<^verbatim>\<open>NetworkSet\<close>, or one object.\<close>

datatype operand =
    Set_Operand networkset
  | Obj_Operand pyobj

text \<open>\<^verbatim>\<open>operator_func\<close>, the closure \<^verbatim>\<open>__add_a_operator\<close> binds to \<^verbatim>\<open>operator_name\<close>.\<close>

definition operator_func ::
  "'a network_class \<Rightarrow> string \<Rightarrow> class_dict \<Rightarrow> networkset \<Rightarrow> operand
     \<Rightarrow> (error + networkset) \<times> class_dict" where
  "operator_func N operator_name cls self other =
     (case other of
        Set_Operand oset \<Rightarrow>
          if length (ntwk_set oset) \<noteq> length (ntwk_set self)
          then (Inl (ValueError ''Network sets must be of same length to be casacaded''), cls)
          else
            (case comprehension
                    (\<lambda>k. call_operator N operator_name (ntwk_set self ! k) (ntwk_set oset ! k))
                    [0..<length (ntwk_set self)] of
               Inl e \<Rightarrow> (Inl e, cls)
             | Inr results \<Rightarrow> NetworkSet_init N cls results None)
      | Obj_Operand (Network n) \<Rightarrow>
          (case comprehension (\<lambda>ntwk. call_operator N operator_name ntwk (Network n))
                  (ntwk_set self) of
             Inl e \<Rightarrow> (Inl e, cls)
           | Inr results \<Rightarrow> NetworkSet_init N cls results None)
      | Obj_Operand (Object p f) \<Rightarrow>
          (Inl (TypeError
             ''NetworkSet operators operate on either Network, or NetworkSet types''), cls))"

text \<open>
  \<^verbatim>\<open>self OP other\<close>: Python looks the operator's name up in the class of \<^verbatim>\<open>self\<close>.
  The constructor binds the operator names to \<^verbatim>\<open>operator_func\<close> closures only; a class
  without the name does not support the operator.
\<close>

definition apply_operator ::
  "'a network_class \<Rightarrow> class_dict \<Rightarrow> string \<Rightarrow> networkset \<Rightarrow> operand
     \<Rightarrow> (error + networkset) \<times> class_dict" where
  "apply_operator N cls opn self other =
     (case cls opn of
        Some (Operator operator_name) \<Rightarrow> operator_func N operator_name cls self other
      | _ \<Rightarrow> (Inl (TypeError ''unsupported operand type(s)''), cls))"

section \<open>Methods called on every member\<close>

datatype method_result =
    Set_Result networkset
  | List_Result "pyobj list"

text \<open>\<^verbatim>\<open>element_wise_method\<close>. Only \<^verbatim>\<open>output[0]\<close> decides how the results are returned.\<close>

definition element_wise_method ::
  "'a network_class \<Rightarrow> class_dict \<Rightarrow> networkset \<Rightarrow> string \<Rightarrow> 'a
     \<Rightarrow> (error + method_result) \<times> class_dict" where
  "element_wise_method N cls self network_method_name args =
     (case comprehension (call_method N network_method_name args) (ntwk_set self) of
        Inl e \<Rightarrow> (Inl e, cls)
      | Inr output \<Rightarrow>
          (case output of
             [] \<Rightarrow> (Inl (IndexError ''list index out of range''), cls)
           | Object p f # rest \<Rightarrow> (Inr (List_Result output), cls)
           | Network n # rest \<Rightarrow>
               (case NetworkSet_init N cls output None of
                  (Inl e, cls') \<Rightarrow> (Inl e, cls')
                | (Inr r, cls') \<Rightarrow> (Inr (Set_Result r), cls'))))"

text \<open>
  \<^verbatim>\<open>self.<nm>(*args, **kwargs)\<close> for a name that \<^verbatim>\<open>__add_a_element_wise_method\<close> bound:
  the closure \<^verbatim>\<open>func\<close> passes the method name it closed over and the arguments on to
  \<^verbatim>\<open>element_wise_method\<close>. The result is \<open>None\<close> when the class binds no such closure
  to the name.
\<close>

definition call_element_wise ::
  "'a network_class \<Rightarrow> class_dict \<Rightarrow> networkset \<Rightarrow> string \<Rightarrow> 'a
     \<Rightarrow> ((error + method_result) \<times> class_dict) option" where
  "call_element_wise N cls self nm args =
     (case cls nm of
        Some (Element_Wise_Method network_method_name) \<Rightarrow>
          Some (element_wise_method N cls self network_method_name args)
      | _ \<Rightarrow> None)"

definition element_wise_names :: "string list" where
  "element_wise_names =
     map (\<lambda>network_property_name. ''plot_'' @ network_property_name) property_names
       @ [''plot_s_db''] @ method_names"

section \<open>Reading a set from an archive\<close>

text \<open>
  A zip archive is the list of its entries, name and content, in the order of its
  directory. \<^verbatim>\<open>namelist\<close> gives the names in that order; \<^verbatim>\<open>open\<close> finds an entry by
  name, the last one when a name occurs twice.
\<close>

type_synonym archive = "(string \<times> string) list"

definition namelist :: "archive \<Rightarrow> string list" where
  "namelist z = map fst z"

definition zip_open :: "archive \<Rightarrow> string \<Rightarrow> error + string" where
  "zip_open z filename =
     (case map_of (rev z) filename of
        None \<Rightarrow> Inl (IOError filename)
      | Some content \<Rightarrow> Inr content)"

text \<open>
  \<^verbatim>\<open>from_zip\<close>; \<open>ZipFile\<close> opens the archive of a given name, or raises. Neither
  \<^verbatim>\<open>*args\<close> nor \<^verbatim>\<open>**kwargs\<close> occurs in the body.
\<close>

definition from_zip ::
  "'a network_class \<Rightarrow> (string \<Rightarrow> error + archive) \<Rightarrow> class_dict \<Rightarrow> string
     \<Rightarrow> 'b list \<Rightarrow> (string \<times> 'b) list \<Rightarrow> (error + networkset) \<times> class_dict" where
  "from_zip N ZipFile cls zip_file_name args kwargs =
     (case ZipFile zip_file_name of
        Inl e \<Rightarrow> (Inl e, cls)
      | Inr z \<Rightarrow>
          (case comprehension
                  (\<lambda>filename. case zip_open z filename of
                                 Inl e \<Rightarrow> Inl e
                               | Inr file \<Rightarrow>
                                   (case read_touchstone N file of
                                      Inl e \<Rightarrow> Inl e
                                    | Inr ntwk \<Rightarrow> Inr (Network ntwk)))
                  (namelist z) of
             Inl e \<Rightarrow> (Inl e, cls)
           | Inr ntwks \<Rightarrow> NetworkSet_init N cls ntwks None))"

section \<open>A network class to compute with\<close>

text \<open>
  Modelled from the spec: \<^verbatim>\<open>network.py\<close> and \<^verbatim>\<open>mathFunctions.py\<close> are not among the
  sources. This class has the views the examples read (real part, imaginary part,
  magnitude, and magnitude in decibels, \<open>20 log\<^sub>1\<^sub>0 |s|\<close>), compares frequency axes
  point by point, adds and subtracts s-matrices entry by entry, interpolates by
  replacing the frequency axis, and reads a touchstone file as a one-port network with
  one sample per character.
\<close>

definition example_view :: "string \<Rightarrow> network \<Rightarrow> error + array" where
  "example_view a n =
     (if a = ''s_re'' then Inr (map (\<lambda>z. of_real (Re z)) (s n))
      else if a = ''s_im'' then Inr (map (\<lambda>z. of_real (Im z)) (s n))
      else if a = ''s_mag'' then Inr (map (\<lambda>z. of_real (cmod z)) (s n))
      else if a = ''s_db'' then Inr (map (\<lambda>z. of_real (20 * log 10 (cmod z))) (s n))
      else Inl (AttributeError a))"

definition example_operator :: "string \<Rightarrow> network \<Rightarrow> pyobj \<Rightarrow> error + pyobj" where
  "example_operator opn n other =
     (case other of
        Object p f \<Rightarrow> Inl (TypeError ''unsupported operand type(s)'')
      | Network m \<Rightarrow>
          if opn = ''__add__'' then Inr (Network (n\<lparr>s := map2 (+) (s n) (s m)\<rparr>))
          else if opn = ''__sub__'' then Inr (Network (n\<lparr>s := map2 (-) (s n) (s m)\<rparr>))
          else Inl (AttributeError opn))"

definition example_method :: "string \<Rightarrow> frequency \<Rightarrow> network \<Rightarrow> error + pyobj" where
  "example_method m args n =
     (if m = ''interpolate'' then Inr (Network (n\<lparr>frequency := args\<rparr>))
      else Inr (Object None None))"

definition example_touchstone :: "string \<Rightarrow> error + network" where
  "example_touchstone file =
     (if file = [] then Inl (IOError ''empty file'')
      else Inr \<lparr>number_of_ports = 1, frequency = map real [0..<length file],
                s = map (\<lambda>c. of_nat (of_char c)) file, ntwk_name = None\<rparr>)"

definition example_class :: "frequency network_class" where
  "example_class =
     \<lparr>frequency_eq = (=), net_view = example_view, net_copy = (\<lambda>n. n),
      net_method = example_method, net_operator = example_operator,
      read_touchstone = example_touchstone\<rparr>"

text \<open>A one-port network with a single frequency sample and the entry \<open>z\<close>.\<close>

definition one_port :: "complex \<Rightarrow> network" where
  "one_port z = \<lparr>number_of_ports = 1, frequency = [1], s = [z], ntwk_name = None\<rparr>"

text \<open>The ensemble of two one-port networks with the magnitudes 1 and 100.\<close>

definition example_set :: networkset where
  "example_set = \<lparr>ntwk_set = [Network (one_port 1), Network (one_port 100)], name = None\<rparr>"

text \<open>
  A network class that differs from the one above in \<^verbatim>\<open>interpolate\<close> alone: a
  network with a name returns itself, a network without one returns \<^verbatim>\<open>None\<close>. The
  set holds one network of each kind.
\<close>

definition named_or_none :: "string \<Rightarrow> frequency \<Rightarrow> network \<Rightarrow> error + pyobj" where
  "named_or_none m args n =
     (if m = ''interpolate'' \<and> ntwk_name n \<noteq> None then Inr (Network n)
      else Inr (Object None None))"

definition mixed_class :: "frequency network_class" where
  "mixed_class = example_class\<lparr>net_method := named_or_none\<rparr>"

definition mixed_set :: networkset where
  "mixed_set =
     \<lparr>ntwk_set = [Network ((one_port 1)\<lparr>ntwk_name := Some ''a''\<rparr>), Network (one_port 100)],
      name = None\<rparr>"

text \<open>A file system with one archive, of two touchstone files.\<close>

definition example_ZipFile :: "string \<Rightarrow> error + archive" where
  "example_ZipFile zip_file_name =
     (if zip_file_name = ''myzip.zip'' then Inr [(''a.s1p'', ''x''), (''b.s1p'', ''y'')]
      else Inl (IOError zip_file_name))"

section \<open>Facts about the names the constructor adds\<close>

lemma fold_upd_map_add:
  "fold (\<lambda>x c. c(k x \<mapsto> v x)) xs (m ++ g) = m ++ fold (\<lambda>x c. c(k x \<mapsto> v x)) xs g"
  by (induction xs arbitrary: g) (simp_all add: map_add_upd [symmetric] del: map_add_upd)

lemma generate_for_property_map_add:
  "generate_for_property a (m ++ g) = m ++ generate_for_property a g"
  by (simp add: generate_for_property_def add_a_element_wise_method_def
      add_a_plot_uncertainty_def add_a_func_on_property_def)

lemma fold_generate_for_property_map_add:
  "fold generate_for_property as (m ++ g) = m ++ fold generate_for_property as g"
  by (induction as arbitrary: g) (simp_all add: generate_for_property_map_add)

lemma generate_map_add: "generate (m ++ g) = m ++ generate g"
  unfolding generate_def add_a_operator_def add_a_element_wise_method_def
  by (simp only: fold_generate_for_property_map_add fold_upd_map_add)

lemma generate_eq: "generate cls = cls ++ generate Map.empty"
  using generate_map_add [of cls Map.empty] by simp

lemma map_add_twice: "(m ++ g) ++ g = m ++ (g :: 'a \<rightharpoonup> 'b)"
  by (rule ext) (simp add: map_add_def split: option.split)

lemma generate_idem: "generate (generate cls) = generate cls"
proof -
  have "generate (generate cls) = (cls ++ generate Map.empty) ++ generate Map.empty"
    using generate_eq [of "generate cls"] generate_eq [of cls] by simp
  then show ?thesis
    using generate_eq [of cls] by (simp only: map_add_twice)
qed

text \<open>Updates under other names leave a name alone; an update under it binds it.\<close>

lemma fold_upd_other:
  assumes "k0 \<notin> set xs"
  shows "fold (\<lambda>x c. c(x \<mapsto> v x)) xs c k0 = c k0"
  using assms by (induction xs arbitrary: c) simp_all

lemma fold_upd_sets:
  assumes "k0 \<in> set xs"
  shows "fold (\<lambda>x c. c(x \<mapsto> v x)) xs c k0 = Some (v k0)"
  using assms
proof (induction xs arbitrary: c)
  case Nil
  then show ?case by simp
next
  case (Cons y ys)
  show ?case
  proof (cases "k0 \<in> set ys")
    case True
    then show ?thesis using Cons.IH by simp
  next
    case False
    with Cons.prems have y: "y = k0" by simp
    have "fold (\<lambda>x c. c(x \<mapsto> v x)) ys (c(k0 \<mapsto> v k0)) k0 = (c(k0 \<mapsto> v k0)) k0"
      by (rule fold_upd_other [OF False])
    then show ?thesis unfolding y by (simp only: fold_simps o_apply fun_upd_same)
  qed
qed

lemma generate_operator:
  assumes "opn \<in> set operator_names"
  shows "generate cls opn = Some (Operator opn)"
  unfolding generate_def add_a_operator_def
  using assms by (rule fold_upd_sets)

lemma func_key_no_method: "func_name f @ ''_'' @ a \<notin> set method_names"
  by (cases f) (simp_all add: method_names_def)

lemma func_key_no_operator: "func_name f @ ''_'' @ a \<notin> set operator_names"
  by (cases f) (simp_all add: operator_names_def)

lemma generate_for_property_keeps_func:
  assumes "c (func_name f @ ''_'' @ a) = Some (Func_On_Property f a)"
  shows "generate_for_property b c (func_name f @ ''_'' @ a) = Some (Func_On_Property f a)"
  using assms
  by (cases f)
    (simp_all add: generate_for_property_def add_a_element_wise_method_def
      add_a_plot_uncertainty_def add_a_func_on_property_def)

lemma generate_for_property_sets_func:
  "generate_for_property a c (func_name f @ ''_'' @ a) = Some (Func_On_Property f a)"
  by (cases f)
    (simp_all add: generate_for_property_def add_a_element_wise_method_def
      add_a_plot_uncertainty_def add_a_func_on_property_def)

lemma fold_generate_keeps_func:
  assumes "c (func_name f @ ''_'' @ a) = Some (Func_On_Property f a)"
  shows "fold generate_for_property bs c (func_name f @ ''_'' @ a) = Some (Func_On_Property f a)"
  using assms
proof (induction bs arbitrary: c)
  case Nil
  then show ?case by (simp only: fold_simps id_apply)
next
  case (Cons b bs)
  have "generate_for_property b c (func_name f @ ''_'' @ a) = Some (Func_On_Property f a)"
    using Cons.prems by (rule generate_for_property_keeps_func)
  then show ?case
    by (simp only: fold_simps o_apply Cons.IH)
qed

lemma fold_generate_sets_func:
  assumes "a \<in> set bs"
  shows "fold generate_for_property bs c (func_name f @ ''_'' @ a) = Some (Func_On_Property f a)"
  using assms
proof (induction bs arbitrary: c)
  case Nil
  then show ?case by simp
next
  case (Cons b bs)
  show ?case
  proof (cases "a = b")
    case True
    have "fold generate_for_property bs (generate_for_property a c) (func_name f @ ''_'' @ a)
            = Some (Func_On_Property f a)"
      using generate_for_property_sets_func [of a c f] by (rule fold_generate_keeps_func)
    then show ?thesis using True by (simp only: fold_simps o_apply)
  next
    case False
    with Cons.prems have "a \<in> set bs" by simp
    then show ?thesis by (simp only: fold_simps o_apply Cons.IH)
  qed
qed

lemma generate_func_on_property:
  assumes "a \<in> set property_names"
  shows "generate cls (func_name f @ ''_'' @ a) = Some (Func_On_Property f a)"
  unfolding generate_def add_a_operator_def add_a_element_wise_method_def
  by (simp only: fold_upd_other [OF func_key_no_operator] fold_upd_other [OF func_key_no_method]
      fold_generate_sets_func [OF assms])

lemma generate_mean_s_mag:
  "generate cls ''mean_s_mag'' = Some (Func_On_Property Mean ''s_mag'')"
  using generate_func_on_property [of "''s_mag''" cls Mean]
  by (simp add: property_names_def)

lemma property_name_no_bounds:
  assumes "a \<in> set property_names \<or> a = ''s_db''"
  shows "a \<noteq> ''uncertainty_bounds_'' @ b"
  using assms by (auto simp: property_names_def)

lemma element_wise_name_cases:
  assumes "m \<in> set element_wise_names"
  shows "m \<in> set method_names \<or>
         (\<exists>a. m = ''plot_'' @ a \<and> (a \<in> set property_names \<or> a = ''s_db''))"
  using assms unfolding element_wise_names_def by auto

lemma plot_key_no_operator: "''plot_'' @ a \<notin> set operator_names"
  by (simp add: operator_names_def)

lemma method_no_operator: "m \<in> set method_names \<Longrightarrow> m \<notin> set operator_names"
  by (auto simp: operator_names_def method_names_def)

lemma generate_for_property_keeps_method:
  assumes "c (''plot_'' @ a) = Some (Element_Wise_Method (''plot_'' @ a))"
    and "a \<noteq> ''uncertainty_bounds_'' @ b"
  shows "generate_for_property b c (''plot_'' @ a) = Some (Element_Wise_Method (''plot_'' @ a))"
  using assms
  by (simp add: generate_for_property_def add_a_element_wise_method_def
      add_a_plot_uncertainty_def add_a_func_on_property_def)

lemma generate_for_property_sets_method:
  "generate_for_property a c (''plot_'' @ a) = Some (Element_Wise_Method (''plot_'' @ a))"
  by (simp add: generate_for_property_def add_a_element_wise_method_def
      add_a_plot_uncertainty_def add_a_func_on_property_def)

lemma generate_for_property_sets_plot_s_db:
  "generate_for_property b c (''plot_'' @ ''s_db'') = Some (Element_Wise_Method (''plot_'' @ ''s_db''))"
  by (simp add: generate_for_property_def add_a_element_wise_method_def
      add_a_plot_uncertainty_def add_a_func_on_property_def)

lemma fold_generate_keeps_method:
  assumes "c (''plot_'' @ a) = Some (Element_Wise_Method (''plot_'' @ a))"
    and "a \<in> set property_names \<or> a = ''s_db''"
  shows "fold generate_for_property bs c (''plot_'' @ a) = Some (Element_Wise_Method (''plot_'' @ a))"
  using assms(1)
proof (induction bs arbitrary: c)
  case Nil
  then show ?case by (simp only: fold_simps id_apply)
next
  case (Cons b bs)
  have "generate_for_property b c (''plot_'' @ a) = Some (Element_Wise_Method (''plot_'' @ a))"
    using Cons.prems property_name_no_bounds [OF assms(2)]
    by (rule generate_for_property_keeps_method)
  then show ?case
    by (simp only: fold_simps o_apply Cons.IH)
qed

lemma fold_generate_sets_method:
  assumes "a \<in> set bs" and "a \<in> set property_names \<or> a = ''s_db''"
  shows "fold generate_for_property bs c (''plot_'' @ a) = Some (Element_Wise_Method (''plot_'' @ a))"
  using assms(1)
proof (induction bs arbitrary: c)
  case Nil
  then show ?case by simp
next
  case (Cons x xs)
  show ?case
  proof (cases "a = x")
    case True
    have "fold generate_for_property xs (generate_for_property a c) (''plot_'' @ a)
            = Some (Element_Wise_Method (''plot_'' @ a))"
      using generate_for_property_sets_method [of a c] assms(2)
      by (rule fold_generate_keeps_method)
    then show ?thesis using True by (simp only: fold_simps o_apply)
  next
    case False
    with Cons.prems have "a \<in> set xs" by simp
    then show ?thesis by (simp only: fold_simps o_apply Cons.IH)
  qed
qed

lemma fold_generate_sets_plot_s_db:
  assumes "bs \<noteq> []"
  shows "fold generate_for_property bs c (''plot_'' @ ''s_db'')
           = Some (Element_Wise_Method (''plot_'' @ ''s_db''))"
proof (cases bs)
  case Nil
  then show ?thesis using assms by simp
next
  case (Cons b bs')
  have "fold generate_for_property bs' (generate_for_property b c) (''plot_'' @ ''s_db'')
          = Some (Element_Wise_Method (''plot_'' @ ''s_db''))"
    using generate_for_property_sets_plot_s_db [of b c]
    by (rule fold_generate_keeps_method) simp
  then show ?thesis unfolding Cons by (simp only: fold_simps o_apply)
qed

lemma generate_element_wise:
  assumes "m \<in> set element_wise_names"
  shows "generate cls m = Some (Element_Wise_Method m)"
proof -
  let ?P = "fold generate_for_property property_names cls"
  let ?M = "fold (\<lambda>x c. c(x \<mapsto> Element_Wise_Method x)) method_names ?P"
  have later: "?M m = Some (Element_Wise_Method m)" if "?P m = Some (Element_Wise_Method m)"
  proof (cases "m \<in> set method_names")
    case True
    then show ?thesis by (rule fold_upd_sets)
  next
    case False
    show ?thesis using that by (simp only: fold_upd_other [OF False])
  qed
  from element_wise_name_cases [OF assms]
  consider (by_name) "m \<in> set method_names"
    | (plot) a where "m = ''plot_'' @ a" and "a \<in> set property_names \<or> a = ''s_db''"
    by blast
  then have "?M m = Some (Element_Wise_Method m) \<and> m \<notin> set operator_names"
  proof cases
    case by_name
    then show ?thesis
      by (simp add: fold_upd_sets method_no_operator)
  next
    case (plot a)
    note m = plot(1) and a = plot(2)
    have "?P m = Some (Element_Wise_Method m)"
    proof (cases "a \<in> set property_names")
      case True
      then show ?thesis unfolding m using a by (rule fold_generate_sets_method)
    next
      case False
      with a have sdb: "a = ''s_db''" by simp
      have "property_names \<noteq> []" by (simp add: property_names_def)
      then show ?thesis unfolding m sdb by (rule fold_generate_sets_plot_s_db)
    qed
    then have "?M m = Some (Element_Wise_Method m)" by (rule later)
    moreover have "m \<notin> set operator_names"
      unfolding m by (rule plot_key_no_operator)
    ultimately show ?thesis by (rule conjI)
  qed
  then have M: "?M m = Some (Element_Wise_Method m)" and O: "m \<notin> set operator_names"
    by (rule conjunct1, rule conjunct2)
  show ?thesis
    unfolding generate_def add_a_operator_def add_a_element_wise_method_def
    by (simp only: fold_upd_other [OF O] M)
qed

lemma add_in_operator_names: "''__add__'' \<in> set operator_names"
  by (simp add: operator_names_def)

lemma interpolate_element_wise: "''interpolate'' \<in> set element_wise_names"
  by (simp add: element_wise_names_def method_names_def)

lemma write_touchstone_element_wise: "''write_touchstone'' \<in> set element_wise_names"
  by (simp add: element_wise_names_def method_names_def)

section \<open>Facts about comprehensions\<close>

lemma comprehension_Inr_iff:
  "comprehension f xs = Inr ys \<longleftrightarrow>
     length ys = length xs \<and> (\<forall>k<length xs. f (xs ! k) = Inr (ys ! k))"
proof (induction xs arbitrary: ys)
  case Nil
  then show ?case by auto
next
  case (Cons x xs)
  show ?case
  proof (cases ys)
    case Nil
    then show ?thesis by (auto split: sum.splits)
  next
    case (Cons y ys')
    then show ?thesis
      using Cons.IH [of ys']
      by (auto simp: less_Suc_eq_0_disj split: sum.splits)
  qed
qed

lemma comprehension_upt_Inr_iff:
  "comprehension f [0..<n] = Inr ys \<longleftrightarrow> length ys = n \<and> (\<forall>k<n. f k = Inr (ys ! k))"
  unfolding comprehension_Inr_iff by (simp cong: conj_cong)

lemma comprehension_map_comp:
  assumes "\<And>x. x \<in> set xs \<Longrightarrow> f (h x) = Inr (g x)"
  shows "comprehension f (map h xs) = Inr (map g xs)"
  using assms by (induction xs) simp_all


section \<open>Facts about the constructor\<close>

lemma several_values_iff:
  "1 < length (remdups xs) \<longleftrightarrow> (\<exists>i<length xs. \<exists>j<length xs. xs ! i \<noteq> xs ! j)"
proof -
  have "1 < length (remdups xs) \<longleftrightarrow> \<not> card (set xs) \<le> 1"
    by (simp add: length_remdups_card_conv not_le)
  also have "\<dots> \<longleftrightarrow> (\<exists>x\<in>set xs. \<exists>y\<in>set xs. x \<noteq> y)"
    using card_le_Suc0_iff_eq [of "set xs"] by auto
  also have "\<dots> \<longleftrightarrow> (\<exists>i<length xs. \<exists>j<length xs. xs ! i \<noteq> xs ! j)"
    by (metis in_set_conv_nth)
  finally show ?thesis .
qed

lemma NetworkSet_init_networks:
  assumes "ns \<noteq> []"
  shows "NetworkSet_init N cls (map Network ns) nm =
     (if 1 < length (remdups (map number_of_ports ns))
      then (Inl (ValueError
        ''All elements in list of Networks must have same number of ports''), cls)
      else if \<not> list_all (\<lambda>n. frequency_eq N (frequency (hd ns)) (frequency n)) ns
      then (Inl (ValueError
        ''All elements in list of Networks must have same frequency information''), cls)
      else (Inr \<lparr>ntwk_set = map Network ns, name = nm\<rparr>, generate cls))"
proof -
  obtain n0 rest where ns: "ns = n0 # rest"
    using assms by (cases ns) auto
  have ports: "comprehension get_number_of_ports (map Network ns)
                 = Inr (map number_of_ports ns)"
    by (rule comprehension_map_comp) simp
  have freqs: "comprehension
                 (\<lambda>ntwk. case get_frequency ntwk of
                            Inl e \<Rightarrow> Inl e
                          | Inr w \<Rightarrow> Inr (frequency_eq N (frequency n0) w))
                 (map Network ns)
               = Inr (map (\<lambda>n. frequency_eq N (frequency n0) (frequency n)) ns)"
    by (rule comprehension_map_comp) simp
  have all: "list_all (\<lambda>b. b) (map (\<lambda>n. frequency_eq N (frequency n0) (frequency n)) ns)
               = list_all (\<lambda>n. frequency_eq N (frequency n0) (frequency n)) ns"
    by (simp add: list_all_iff)
  have "NetworkSet_init N cls (Network n0 # map Network rest) nm =
     (if 1 < length (remdups (map number_of_ports ns))
      then (Inl (ValueError
        ''All elements in list of Networks must have same number of ports''), cls)
      else if \<not> list_all (\<lambda>n. frequency_eq N (frequency n0) (frequency n)) ns
      then (Inl (ValueError
        ''All elements in list of Networks must have same frequency information''), cls)
      else (Inr \<lparr>ntwk_set = map Network ns, name = nm\<rparr>, generate cls))"
    unfolding NetworkSet_init_def list.case pyobj.case
    using ports freqs all unfolding ns list.map
    by (simp only: sum.case if_True if_False split: if_split)
  then show ?thesis unfolding ns by simp
qed

lemma NetworkSet_init_accepts:
  assumes "rs \<noteq> []"
    and "\<forall>k<length rs. number_of_ports (rs ! k) = number_of_ports (rs ! 0)
                       \<and> frequency_eq N (frequency (rs ! 0)) (frequency (rs ! k))"
  shows "NetworkSet_init N cls (map Network rs) nm
           = (Inr \<lparr>ntwk_set = map Network rs, name = nm\<rparr>, generate cls)"
proof -
  have "\<not> (\<exists>i<length (map number_of_ports rs). \<exists>j<length (map number_of_ports rs).
              map number_of_ports rs ! i \<noteq> map number_of_ports rs ! j)"
    using assms(2) by simp
  then have ports: "\<not> 1 < length (remdups (map number_of_ports rs))"
    unfolding several_values_iff .
  have freqs: "list_all (\<lambda>n. frequency_eq N (frequency (hd rs)) (frequency n)) rs"
    using assms by (simp add: list_all_length hd_conv_nth)
  show ?thesis
    unfolding NetworkSet_init_networks [OF assms(1)] using ports freqs by simp
qed




lemma NetworkSet_init_Inr:
  assumes "NetworkSet_init N cls0 ntwks nm = (Inr self, cls)"
  shows "self = \<lparr>ntwk_set = ntwks, name = nm\<rparr>" and "cls = generate cls0"
    and "\<exists>n0 rest. ntwks = Network n0 # rest"
proof -
  obtain x rest where xs: "ntwks = x # rest"
    using assms by (cases ntwks) (simp_all add: NetworkSet_init_def)
  obtain n0 where x: "x = Network n0"
    using assms unfolding xs by (cases x) (simp_all add: NetworkSet_init_def)
  show "\<exists>n0 rest. ntwks = Network n0 # rest"
    using xs x by blast
  let ?F = "\<lambda>ntwk. case get_frequency ntwk of
                      Inl e \<Rightarrow> Inl e
                    | Inr w \<Rightarrow> Inr (frequency_eq N (frequency n0) w)"
  from assms
  have T: "(case comprehension get_number_of_ports ntwks of
                  Inl e \<Rightarrow> (Inl e, cls0)
                | Inr ports \<Rightarrow>
                    if length (remdups ports) > 1
                    then (Inl (ValueError
                      ''All elements in list of Networks must have same number of ports''), cls0)
                    else
                      (case comprehension ?F ntwks of
                         Inl e \<Rightarrow> (Inl e, cls0)
                       | Inr eqs \<Rightarrow>
                           if \<not> list_all (\<lambda>b. b) eqs
                           then (Inl (ValueError
                             ''All elements in list of Networks must have same frequency information''),
                             cls0)
                           else (Inr \<lparr>ntwk_set = ntwks, name = nm\<rparr>, generate cls0)))
                = (Inr self, cls)"
    unfolding xs x by (simp only: NetworkSet_init_def list.case pyobj.case)
  then have "self = \<lparr>ntwk_set = ntwks, name = nm\<rparr> \<and> cls = generate cls0"
    by (auto split: sum.splits if_splits)
  then show "self = \<lparr>ntwk_set = ntwks, name = nm\<rparr>" and "cls = generate cls0"
    by blast+
qed

lemma NetworkSet_init_fst_Inr:
  assumes "fst (NetworkSet_init N cls ntwks nm) = Inr r"
  shows "r = \<lparr>ntwk_set = ntwks, name = nm\<rparr>"
proof -
  have "NetworkSet_init N cls ntwks nm = (Inr r, snd (NetworkSet_init N cls ntwks nm))"
    using assms by (metis prod.collapse)
  then show ?thesis by (rule NetworkSet_init_Inr(1))
qed


section \<open>Facts about reductions and properties\<close>

lemma reduce_axis0_same_shape:
  assumes "arrs \<noteq> []" and "\<forall>k<length arrs. length (arrs ! k) = L"
  shows "reduce_axis0 func arrs =
           Inr (map (\<lambda>i. apply_func func (map (\<lambda>x. x ! i) arrs)) [0..<L])"
proof -
  obtain a0 rest where arrs: "arrs = a0 # rest"
    using assms(1) by (cases arrs) auto
  have a0: "length a0 = L"
    using assms(2) unfolding arrs by auto
  have "\<forall>k<length rest. length (rest ! k) = L"
    using assms(2) unfolding arrs by auto
  then have "list_all (\<lambda>a. length a = length a0) rest"
    unfolding a0 by (simp add: list_all_length)
  then show ?thesis
    unfolding reduce_axis0_def arrs a0 [symmetric] by simp
qed

lemma func_on_networks_stacked:
  assumes "length arrs = Suc (length rest)"
    and "\<forall>k<Suc (length rest). getattribute N a ((Network n0 # rest) ! k) = Inr (arrs ! k)"
    and "\<forall>k<Suc (length rest). length (arrs ! k) = L"
  shows "func_on_networks N (Network n0 # rest) f a nm =
           Inr ((net_copy N n0)
                  \<lparr>s := map (\<lambda>i. apply_func f (map (\<lambda>x. x ! i) arrs)) [0..<L],
                   ntwk_name := (case nm of None \<Rightarrow> ntwk_name (net_copy N n0)
                                 | Some x \<Rightarrow> Some x)\<rparr>)"
proof -
  have c: "comprehension (getattribute N a) (Network n0 # rest) = Inr arrs"
    unfolding comprehension_Inr_iff using assms(1,2) by simp
  have "arrs \<noteq> []" using assms(1) by auto
  then have r: "reduce_axis0 f arrs =
           Inr (map (\<lambda>i. apply_func f (map (\<lambda>x. x ! i) arrs)) [0..<L])"
    using assms(1,3) by (simp add: reduce_axis0_same_shape)
  show ?thesis
    by (simp only: func_on_networks_def c r sum.case list.case pyobj.case Let_def)
      (cases nm; simp)
qed

lemma getattr_generated_property:
  assumes "cls k = Some (Func_On_Property f a)"
    and "func_on_networks N (ntwk_set self) f a (name self) = Inr m"
  shows "getattr_generated N cls self k = Inr (Network m)"
  by (simp add: getattr_generated_def assms)

lemma mean_s_db_of_mean_s_mag:
  assumes "cls ''mean_s_mag'' = Some (Func_On_Property Mean ''s_mag'')"
    and "func_on_networks N (ntwk_set self) Mean ''s_mag'' (name self) = Inr m"
    and "net_view N ''s_db'' m = Inr d"
  shows "getattr_generated N cls self ''mean_s_mag'' = Inr (Network m)"
    and "mean_s_db N cls self = Inr (Network (m\<lparr>s := d\<rparr>))"
proof -
  show g: "getattr_generated N cls self ''mean_s_mag'' = Inr (Network m)"
    by (simp add: getattr_generated_def assms(1,2))
  show "mean_s_db N cls self = Inr (Network (m\<lparr>s := d\<rparr>))"
    by (simp add: mean_s_db_def g s_becomes_s_db_def assms(3))
qed

section \<open>Facts about operators and elementwise methods\<close>

lemma operator_func_sets:
  "operator_func N opn cls self (Set_Operand oset) =
     (if length (ntwk_set oset) \<noteq> length (ntwk_set self)
      then (Inl (ValueError ''Network sets must be of same length to be casacaded''), cls)
      else
        (case comprehension
                (\<lambda>k. call_operator N opn (ntwk_set self ! k) (ntwk_set oset ! k))
                [0..<length (ntwk_set self)] of
           Inl e \<Rightarrow> (Inl e, cls)
         | Inr results \<Rightarrow> NetworkSet_init N cls results None))"
  by (simp add: operator_func_def)

lemma operator_func_network:
  "operator_func N opn cls self (Obj_Operand (Network n)) =
     (case comprehension (\<lambda>ntwk. call_operator N opn ntwk (Network n)) (ntwk_set self) of
        Inl e \<Rightarrow> (Inl e, cls)
      | Inr results \<Rightarrow> NetworkSet_init N cls results None)"
  by (simp add: operator_func_def)

lemma operator_func_object:
  "operator_func N opn cls self (Obj_Operand (Object p f)) =
     (Inl (TypeError ''NetworkSet operators operate on either Network, or NetworkSet types''),
      cls)"
  by (simp add: operator_func_def)

lemma apply_operator_generated:
  assumes "opn \<in> set operator_names"
  shows "apply_operator N (generate cls0) opn self other
           = operator_func N opn (generate cls0) self other"
  by (simp add: apply_operator_def generate_operator [OF assms])

lemma call_element_wise_generated:
  assumes "m \<in> set element_wise_names"
  shows "call_element_wise N (generate cls0) self m args
           = Some (element_wise_method N (generate cls0) self m args)"
  by (simp add: call_element_wise_def generate_element_wise [OF assms])

lemma element_wise_method_outs:
  assumes "comprehension (call_method N m args) (ntwk_set self) = Inr outs"
    and "outs \<noteq> []"
  shows "element_wise_method N cls self m args =
           (if isinstance_Network (outs ! 0)
            then (case NetworkSet_init N cls outs None of
                    (Inl e, c) \<Rightarrow> (Inl e, c)
                  | (Inr r, c) \<Rightarrow> (Inr (Set_Result r), c))
            else (Inr (List_Result outs), cls))"
proof -
  obtain x rest where out: "outs = x # rest"
    using assms(2) by (cases outs) auto
  show ?thesis
    unfolding element_wise_method_def assms(1) out
    by (cases x) simp_all
qed

section \<open>Facts about archives\<close>

lemma from_zip_opened:
  assumes "ZipFile zip_file_name = Inr z"
    and "length ns = length z"
    and "\<forall>k<length z. \<exists>file. zip_open z (fst (z ! k)) = Inr file
                               \<and> read_touchstone N file = Inr (ns ! k)"
  shows "from_zip N ZipFile cls zip_file_name args kwargs
           = NetworkSet_init N cls (map Network ns) None"
proof -
  let ?f = "\<lambda>filename. case zip_open z filename of
                          Inl e \<Rightarrow> Inl e
                        | Inr file \<Rightarrow>
                            (case read_touchstone N file of
                               Inl e \<Rightarrow> Inl e
                             | Inr ntwk \<Rightarrow> Inr (Network ntwk))"
  have "\<forall>k<length z. ?f (fst (z ! k)) = Inr (Network (ns ! k))"
  proof (intro allI impI)
    fix k assume "k < length z"
    then obtain content where "zip_open z (fst (z ! k)) = Inr content"
      and "read_touchstone N content = Inr (ns ! k)"
      using assms(3) by blast
    then show "?f (fst (z ! k)) = Inr (Network (ns ! k))"
      by simp
  qed
  then have "comprehension ?f (namelist z) = Inr (map Network ns)"
    unfolding comprehension_Inr_iff namelist_def using assms(2) by simp
  then show ?thesis
    unfolding from_zip_def assms(1) by simp
qed

lemma from_zip_name:
  assumes "fst (from_zip N ZipFile cls zip_file_name args kwargs) = Inr result"
  shows "name result = None"
proof (cases "ZipFile zip_file_name")
  case (Inl e)
  then show ?thesis using assms by (simp add: from_zip_def)
next
  case (Inr z)
  let ?f = "\<lambda>filename. case zip_open z filename of
                          Inl e \<Rightarrow> Inl e
                        | Inr file \<Rightarrow>
                            (case read_touchstone N file of
                               Inl e \<Rightarrow> Inl e
                             | Inr ntwk \<Rightarrow> Inr (Network ntwk))"
  show ?thesis
  proof (cases "comprehension ?f (namelist z)")
    case (Inl e)
    then show ?thesis using assms Inr by (simp add: from_zip_def)
  next
    case ntwks: (Inr ntwks)
    then have "fst (NetworkSet_init N cls ntwks None) = Inr result"
      using assms Inr by (simp add: from_zip_def)
    then have "result = \<lparr>ntwk_set = ntwks, name = None\<rparr>"
      by (rule NetworkSet_init_fst_Inr)
    then show ?thesis by simp
  qed
qed

section \<open>Facts about the examples\<close>

lemma log_10_100: "log 10 100 = (2::real)"
proof -
  have "log 10 ((10::real) powr 2) = 2"
    by (rule log_powr_cancel) simp_all
  moreover have "(10::real) powr 2 = 100"
    by simp
  ultimately show ?thesis by (simp only:)
qed

lemma log_10_half_101: "20 * log 10 (101 / 2) \<noteq> (20::real)"
proof
  assume "20 * log 10 (101 / 2) = (20::real)"
  then have "log 10 (101 / 2) = (1::real)" by simp
  then have "10 powr (log 10 (101 / 2)) = (10::real) powr 1" by simp
  then show False by simp
qed

lemma example_set_init:
  "NetworkSet_init example_class class_definition
     [Network (one_port 1), Network (one_port 100)] None
   = (Inr example_set, generate class_definition)"
  using NetworkSet_init_networks [of "[one_port 1, one_port 100]" example_class class_definition None]
  by (simp add: example_set_def one_port_def example_class_def)

lemma mixed_set_init:
  "NetworkSet_init mixed_class class_definition (ntwk_set mixed_set) None
     = (Inr mixed_set, generate class_definition)"
  using NetworkSet_init_networks
    [of "[(one_port 1)\<lparr>ntwk_name := Some ''a''\<rparr>, one_port 100]" mixed_class
      class_definition None]
  by (simp add: mixed_set_def one_port_def mixed_class_def example_class_def)

lemma example_mean_s_mag:
  "func_on_networks example_class (ntwk_set example_set) Mean ''s_mag'' (name example_set)
     = Inr (one_port (101 / 2))"
  by (simp add: func_on_networks_def example_set_def example_class_def example_view_def
      one_port_def reduce_axis0_def npy_mean_def)

lemma example_mean_of_s_db:
  "func_on_networks example_class (ntwk_set example_set) Mean ''s_db'' (name example_set)
     = Inr (one_port 20)"
  by (simp add: func_on_networks_def example_set_def example_class_def example_view_def
      one_port_def reduce_axis0_def npy_mean_def log_10_100)

lemma example_std_s_mag:
  "func_on_networks example_class (ntwk_set example_set) Std ''s_mag'' (name example_set)
     = Inr (one_port (npy_std [1, 100]))"
  by (simp add: func_on_networks_def example_set_def example_class_def example_view_def
      one_port_def reduce_axis0_def)

lemma example_mean_s_db:
  "mean_s_db example_class (generate class_definition) example_set
     = Inr (Network (one_port (of_real (20 * log 10 (101 / 2)))))"
proof -
  have "net_view example_class ''s_db'' (one_port (101 / 2))
          = Inr [of_real (20 * log 10 (101 / 2))]"
    by (simp add: example_class_def example_view_def one_port_def norm_divide)
  with generate_mean_s_mag [of class_definition] example_mean_s_mag
  have "mean_s_db example_class (generate class_definition) example_set
          = Inr (Network ((one_port (101 / 2))\<lparr>s := [of_real (20 * log 10 (101 / 2))]\<rparr>))"
    by (rule mean_s_db_of_mean_s_mag(2))
  then show ?thesis by (simp add: one_port_def)
qed

section \<open>The claims\<close>

text \<open>
  C1. For a set the constructor accepted, \<^verbatim>\<open>mean_s_db\<close> is the decibel view of the
  network \<^verbatim>\<open>mean_s_mag\<close>, the mean of the members' magnitudes. For the ensemble with
  the magnitudes 1 and 100 this is \<open>20 log\<^sub>1\<^sub>0 50.5\<close>, whereas the mean of the
  members' decibel views is 20.
\<close>

theorem mean_s_db_converts_mean_s_mag:
  "(NetworkSet_init N cls0 ntwks nm = (Inr self, cls)
      \<and> func_on_networks N ntwks Mean ''s_mag'' nm = Inr m
      \<and> net_view N ''s_db'' m = Inr d
    \<longrightarrow> getattr_generated N cls self ''mean_s_mag'' = Inr (Network m)
        \<and> mean_s_db N cls self = Inr (Network (m\<lparr>s := d\<rparr>)))
   \<and> mean_s_db example_class (generate class_definition) example_set
        = Inr (Network (one_port (of_real (20 * log 10 (101 / 2)))))
   \<and> func_on_networks example_class (ntwk_set example_set) Mean ''s_db'' (name example_set)
        = Inr (one_port 20)
   \<and> one_port (of_real (20 * log 10 (101 / 2))) \<noteq> one_port 20"
proof (intro conjI impI)
  assume h: "NetworkSet_init N cls0 ntwks nm = (Inr self, cls)
      \<and> func_on_networks N ntwks Mean ''s_mag'' nm = Inr m
      \<and> net_view N ''s_db'' m = Inr d"
  note init = NetworkSet_init_Inr [OF conjunct1 [OF h]]
  have self: "ntwk_set self = ntwks" "name self = nm"
    unfolding init(1) by simp_all
  have cls: "cls ''mean_s_mag'' = Some (Func_On_Property Mean ''s_mag'')"
    unfolding init(2) by (rule generate_mean_s_mag)
  have m: "func_on_networks N (ntwk_set self) Mean ''s_mag'' (name self) = Inr m"
    unfolding self using h by blast
  have d: "net_view N ''s_db'' m = Inr d"
    using h by blast
  show "getattr_generated N cls self ''mean_s_mag'' = Inr (Network m)"
    using cls m d by (rule mean_s_db_of_mean_s_mag(1))
  show "mean_s_db N cls self = Inr (Network (m\<lparr>s := d\<rparr>))"
    using cls m d by (rule mean_s_db_of_mean_s_mag(2))
next
  show "mean_s_db example_class (generate class_definition) example_set
        = Inr (Network (one_port (of_real (20 * log 10 (101 / 2)))))"
    by (rule example_mean_s_db)
next
  show "func_on_networks example_class (ntwk_set example_set) Mean ''s_db'' (name example_set)
        = Inr (one_port 20)"
    by (rule example_mean_of_s_db)
next
  have "(of_real (20 * log 10 (101 / 2)) :: complex) \<noteq> of_real 20"
    unfolding of_real_eq_iff by (rule log_10_half_101)
  then show "one_port (of_real (20 * log 10 (101 / 2))) \<noteq> one_port 20"
    by (simp add: one_port_def)
qed

theorem mean_s_db_converts_mean_s_mag_witness:
  "getattr_generated example_class (generate class_definition) example_set ''mean_s_mag''
     = Inr (Network (one_port (101 / 2)))
   \<and> mean_s_db example_class (generate class_definition) example_set
     = Inr (Network ((one_port (101 / 2))\<lparr>s := [of_real (20 * log 10 (101 / 2))]\<rparr>))"
proof -
  have m: "func_on_networks example_class [Network (one_port 1), Network (one_port 100)]
             Mean ''s_mag'' None = Inr (one_port (101 / 2))"
    using example_mean_s_mag by (simp add: example_set_def)
  have d: "net_view example_class ''s_db'' (one_port (101 / 2))
          = Inr [of_real (20 * log 10 (101 / 2))]"
    by (simp add: example_class_def example_view_def one_port_def norm_divide)
  from mean_s_db_converts_mean_s_mag
    [of example_class class_definition "[Network (one_port 1), Network (one_port 100)]" None
      example_set "generate class_definition" "one_port (101 / 2)"
      "[of_real (20 * log 10 (101 / 2))]", THEN conjunct1, THEN mp]
    example_set_init m d
  show ?thesis by blast
qed

text \<open>
  C2. For a set the constructor accepted, every generated property
  \<open>func_attribute\<close> with an attribute of the enumerated list is \<^verbatim>\<open>func_on_networks\<close>
  of the members, that function, that attribute and the name of the set. When every
  member yields an array for the attribute and these arrays have one shape, the value
  is the copy of the first member whose \<open>s\<close> holds, entry by entry, the function of
  the members' entries, and which carries the name of the set when the set has one.
\<close>

theorem generated_property_reduces_members:
  assumes "NetworkSet_init N cls0 ntwks nm = (Inr self, cls)"
    and "a \<in> set property_names"
  shows "getattr_generated N cls self (func_name f @ ''_'' @ a)
           = map_sum (\<lambda>e. e) Network (func_on_networks N (ntwk_set self) f a (name self))
       \<and> (length arrs = length ntwks
            \<and> (\<forall>k<length ntwks. getattribute N a (ntwks ! k) = Inr (arrs ! k))
            \<and> (\<forall>k<length ntwks. length (arrs ! k) = L)
          \<longrightarrow> (\<exists>n0. ntwks ! 0 = Network n0
                \<and> getattr_generated N cls self (func_name f @ ''_'' @ a)
                    = Inr (Network ((net_copy N n0)
                        \<lparr>s := map (\<lambda>i. apply_func f (map (\<lambda>x. x ! i) arrs)) [0..<L],
                         ntwk_name := (case nm of None \<Rightarrow> ntwk_name (net_copy N n0)
                                       | Some x \<Rightarrow> Some x)\<rparr>))))"
proof -
  note init = NetworkSet_init_Inr [OF assms(1)]
  have cls: "cls (func_name f @ ''_'' @ a) = Some (Func_On_Property f a)"
    unfolding init(2) using assms(2) by (rule generate_func_on_property)
  have self: "ntwk_set self = ntwks" "name self = nm"
    unfolding init(1) by simp_all
  have general: "getattr_generated N cls self (func_name f @ ''_'' @ a)
           = map_sum (\<lambda>e. e) Network (func_on_networks N ntwks f a nm)"
    unfolding getattr_generated_def cls self
    by (cases "func_on_networks N ntwks f a nm") simp_all
  obtain n0 rest where ntwks: "ntwks = Network n0 # rest"
    using init(3) by blast
  show ?thesis
  proof (intro conjI impI)
    show "getattr_generated N cls self (func_name f @ ''_'' @ a)
           = map_sum (\<lambda>e. e) Network (func_on_networks N (ntwk_set self) f a (name self))"
      unfolding self by (rule general)
  next
    assume "length arrs = length ntwks
            \<and> (\<forall>k<length ntwks. getattribute N a (ntwks ! k) = Inr (arrs ! k))
            \<and> (\<forall>k<length ntwks. length (arrs ! k) = L)"
    then have "length arrs = Suc (length rest)"
      and "\<forall>k<Suc (length rest). getattribute N a ((Network n0 # rest) ! k) = Inr (arrs ! k)"
      and "\<forall>k<Suc (length rest). length (arrs ! k) = L"
      unfolding ntwks by simp_all
    then have "func_on_networks N ntwks f a nm =
           Inr ((net_copy N n0)
                  \<lparr>s := map (\<lambda>i. apply_func f (map (\<lambda>x. x ! i) arrs)) [0..<L],
                   ntwk_name := (case nm of None \<Rightarrow> ntwk_name (net_copy N n0)
                                 | Some x \<Rightarrow> Some x)\<rparr>)"
      unfolding ntwks by (rule func_on_networks_stacked)
    then have "getattr_generated N cls self (func_name f @ ''_'' @ a)
                    = Inr (Network ((net_copy N n0)
                        \<lparr>s := map (\<lambda>i. apply_func f (map (\<lambda>x. x ! i) arrs)) [0..<L],
                         ntwk_name := (case nm of None \<Rightarrow> ntwk_name (net_copy N n0)
                                       | Some x \<Rightarrow> Some x)\<rparr>))"
      unfolding general by simp
    moreover have "ntwks ! 0 = Network n0"
      unfolding ntwks by simp
    ultimately show "\<exists>n0. ntwks ! 0 = Network n0
                \<and> getattr_generated N cls self (func_name f @ ''_'' @ a)
                    = Inr (Network ((net_copy N n0)
                        \<lparr>s := map (\<lambda>i. apply_func f (map (\<lambda>x. x ! i) arrs)) [0..<L],
                         ntwk_name := (case nm of None \<Rightarrow> ntwk_name (net_copy N n0)
                                       | Some x \<Rightarrow> Some x)\<rparr>))"
      by blast
  qed
qed

theorem generated_property_reduces_members_witness:
  "getattr_generated example_class (generate class_definition) example_set ''mean_s_mag''
     = Inr (Network (one_port (101 / 2)))"
proof -
  let ?ntwks = "[Network (one_port 1), Network (one_port 100)]"
  let ?arrs = "[[1], [100 :: complex]]"
  have members: "length ?arrs = length ?ntwks
      \<and> (\<forall>k<length ?ntwks. getattribute example_class ''s_mag'' (?ntwks ! k) = Inr (?arrs ! k))
      \<and> (\<forall>k<length ?ntwks. length (?arrs ! k) = 1)"
    by (simp add: less_Suc_eq_0_disj example_class_def example_view_def one_port_def)
  have "''s_mag'' \<in> set property_names"
    by (simp add: property_names_def)
  from generated_property_reduces_members [OF example_set_init this,
      of Mean ?arrs 1, THEN conjunct2, THEN mp, OF members]
  show ?thesis
    by (simp add: example_class_def one_port_def npy_mean_def)
qed

text \<open>
  C3. On a set the constructor accepted and a second set, each operator of the
  enumerated list raises the configuration error when the lengths differ. When they are
  equal, and the operator of the network class returns a network for every pair of
  members of equal index, and these networks agree on port count and frequency axis,
  the result is a new set whose member \<open>k\<close> is that network. Whenever a set is
  returned, its member \<open>k\<close> is what the operator returned for the members \<open>k\<close>.
\<close>

theorem operator_on_two_sets:
  assumes "NetworkSet_init N cls0 ntwks nm = (Inr self, cls)"
    and "opn \<in> set operator_names"
  shows "(length (ntwk_set other) \<noteq> length (ntwk_set self) \<longrightarrow>
            apply_operator N cls opn self (Set_Operand other) =
              (Inl (ValueError ''Network sets must be of same length to be casacaded''), cls))
       \<and> (length (ntwk_set other) = length (ntwk_set self)
            \<and> length rs = length (ntwk_set self)
            \<and> (\<forall>k<length (ntwk_set self).
                  call_operator N opn (ntwk_set self ! k) (ntwk_set other ! k)
                    = Inr (Network (rs ! k)))
            \<and> (\<forall>k<length rs. number_of_ports (rs ! k) = number_of_ports (rs ! 0)
                              \<and> frequency_eq N (frequency (rs ! 0)) (frequency (rs ! k)))
          \<longrightarrow> apply_operator N cls opn self (Set_Operand other) =
                (Inr \<lparr>ntwk_set = map Network rs, name = None\<rparr>, cls))
       \<and> (fst (apply_operator N cls opn self (Set_Operand other)) = Inr result \<longrightarrow>
             length (ntwk_set result) = length (ntwk_set self)
             \<and> (\<forall>k<length (ntwk_set self).
                   call_operator N opn (ntwk_set self ! k) (ntwk_set other ! k)
                     = Inr (ntwk_set result ! k)))"
proof -
  note init = NetworkSet_init_Inr [OF assms(1)]
  let ?n = "length (ntwk_set self)"
  let ?f = "\<lambda>k. call_operator N opn (ntwk_set self ! k) (ntwk_set other ! k)"
  have nonempty: "0 < ?n"
    using init(1,3) by auto
  have ap: "apply_operator N cls opn self (Set_Operand other) =
     (if length (ntwk_set other) \<noteq> ?n
      then (Inl (ValueError ''Network sets must be of same length to be casacaded''), cls)
      else (case comprehension ?f [0..<?n] of
              Inl e \<Rightarrow> (Inl e, cls)
            | Inr results \<Rightarrow> NetworkSet_init N cls results None))"
    unfolding init(2) apply_operator_generated [OF assms(2)] by (rule operator_func_sets)
  show ?thesis
  proof (intro conjI impI)
    assume "length (ntwk_set other) \<noteq> ?n"
    then show "apply_operator N cls opn self (Set_Operand other) =
              (Inl (ValueError ''Network sets must be of same length to be casacaded''), cls)"
      unfolding ap by simp
  next
    assume h: "length (ntwk_set other) = ?n
            \<and> length rs = ?n
            \<and> (\<forall>k<?n. ?f k = Inr (Network (rs ! k)))
            \<and> (\<forall>k<length rs. number_of_ports (rs ! k) = number_of_ports (rs ! 0)
                              \<and> frequency_eq N (frequency (rs ! 0)) (frequency (rs ! k)))"
    then have "comprehension ?f [0..<?n] = Inr (map Network rs)"
      unfolding comprehension_upt_Inr_iff by simp
    moreover have "rs \<noteq> []"
      using h nonempty by auto
    then have "NetworkSet_init N cls (map Network rs) None
           = (Inr \<lparr>ntwk_set = map Network rs, name = None\<rparr>, generate cls)"
      using h by (simp add: NetworkSet_init_accepts)
    moreover have "generate cls = cls"
      unfolding init(2) by (rule generate_idem)
    ultimately show "apply_operator N cls opn self (Set_Operand other) =
                (Inr \<lparr>ntwk_set = map Network rs, name = None\<rparr>, cls)"
      unfolding ap using h by simp
  next
    assume r: "fst (apply_operator N cls opn self (Set_Operand other)) = Inr result"
    then have len: "length (ntwk_set other) = ?n"
      unfolding ap by (simp split: if_splits)
    from r obtain results where c: "comprehension ?f [0..<?n] = Inr results"
      and i: "fst (NetworkSet_init N cls results None) = Inr result"
      unfolding ap using len by (cases "comprehension ?f [0..<?n]") simp_all
    have "ntwk_set result = results"
      using NetworkSet_init_fst_Inr [OF i] by simp
    then show "length (ntwk_set result) = ?n"
      and "\<forall>k<?n. ?f k = Inr (ntwk_set result ! k)"
      using c unfolding comprehension_upt_Inr_iff by simp_all
  qed
qed

theorem operator_on_two_sets_witness:
  "apply_operator example_class (generate class_definition) ''__add__'' example_set
       (Set_Operand \<lparr>ntwk_set = [Network (one_port 1)], name = None\<rparr>)
     = (Inl (ValueError ''Network sets must be of same length to be casacaded''),
        generate class_definition)
   \<and> apply_operator example_class (generate class_definition) ''__add__'' example_set
       (Set_Operand example_set)
     = (Inr \<lparr>ntwk_set = map Network [one_port 2, one_port 200], name = None\<rparr>,
        generate class_definition)
   \<and> call_operator example_class ''__add__'' (ntwk_set example_set ! 1)
        (ntwk_set example_set ! 1) = Inr (Network (one_port 200))"
proof -
  let ?cls = "generate class_definition"
  let ?short = "\<lparr>ntwk_set = [Network (one_port 1)], name = None\<rparr>"
  let ?rs = "[one_port 2, one_port 200]"
  let ?result = "\<lparr>ntwk_set = map Network ?rs, name = None\<rparr>"
  note inst = operator_on_two_sets [OF example_set_init add_in_operator_names]
  have "length (ntwk_set ?short) \<noteq> length (ntwk_set example_set)"
    by (simp add: example_set_def)
  with inst [of ?short, THEN conjunct1]
  have 1: "apply_operator example_class ?cls ''__add__'' example_set (Set_Operand ?short)
     = (Inl (ValueError ''Network sets must be of same length to be casacaded''), ?cls)"
    by (rule mp)
  have "length (ntwk_set example_set) = length (ntwk_set example_set)
            \<and> length ?rs = length (ntwk_set example_set)
            \<and> (\<forall>k<length (ntwk_set example_set).
                  call_operator example_class ''__add__'' (ntwk_set example_set ! k)
                    (ntwk_set example_set ! k) = Inr (Network (?rs ! k)))
            \<and> (\<forall>k<length ?rs. number_of_ports (?rs ! k) = number_of_ports (?rs ! 0)
                  \<and> frequency_eq example_class (frequency (?rs ! 0)) (frequency (?rs ! k)))"
    by (simp add: example_set_def less_Suc_eq_0_disj example_class_def example_operator_def
        one_port_def)
  with inst [of example_set ?rs, THEN conjunct2, THEN conjunct1]
  have 2: "apply_operator example_class ?cls ''__add__'' example_set (Set_Operand example_set)
     = (Inr ?result, ?cls)"
    by (rule mp)
  then have "fst (apply_operator example_class ?cls ''__add__'' example_set
               (Set_Operand example_set)) = Inr ?result"
    by simp
  with inst [of example_set _ ?result, THEN conjunct2, THEN conjunct2]
  have "length (ntwk_set ?result) = length (ntwk_set example_set)
          \<and> (\<forall>k<length (ntwk_set example_set).
                call_operator example_class ''__add__'' (ntwk_set example_set ! k)
                  (ntwk_set example_set ! k) = Inr (ntwk_set ?result ! k))"
    by (rule mp)
  moreover have "1 < length (ntwk_set example_set)"
    by (simp add: example_set_def)
  ultimately have "call_operator example_class ''__add__'' (ntwk_set example_set ! 1)
        (ntwk_set example_set ! 1) = Inr (ntwk_set ?result ! 1)"
    by blast
  then have 3: "call_operator example_class ''__add__'' (ntwk_set example_set ! 1)
        (ntwk_set example_set ! 1) = Inr (Network (one_port 200))"
    by simp
  from 1 2 3 show ?thesis by (intro conjI)
qed

text \<open>
  C4. On a set the constructor accepted and one network, each operator of the
  enumerated list applies the operator of the network class to every member and that
  network: when it returns a network for every member, and these networks agree on
  port count and frequency axis, the result is a new set whose member \<open>k\<close> is that
  network, and whenever a set is returned its member \<open>k\<close> is what the operator returned
  for member \<open>k\<close>. An operand that is neither a set nor a network raises the type
  error.
\<close>

theorem operator_on_set_and_object:
  assumes "NetworkSet_init N cls0 ntwks nm = (Inr self, cls)"
    and "opn \<in> set operator_names"
  shows "(length rs = length (ntwk_set self)
            \<and> (\<forall>k<length (ntwk_set self).
                  call_operator N opn (ntwk_set self ! k) (Network n) = Inr (Network (rs ! k)))
            \<and> (\<forall>k<length rs. number_of_ports (rs ! k) = number_of_ports (rs ! 0)
                              \<and> frequency_eq N (frequency (rs ! 0)) (frequency (rs ! k)))
          \<longrightarrow> apply_operator N cls opn self (Obj_Operand (Network n)) =
                (Inr \<lparr>ntwk_set = map Network rs, name = None\<rparr>, cls))
       \<and> (fst (apply_operator N cls opn self (Obj_Operand (Network n))) = Inr result \<longrightarrow>
             length (ntwk_set result) = length (ntwk_set self)
             \<and> (\<forall>k<length (ntwk_set self).
                   call_operator N opn (ntwk_set self ! k) (Network n)
                     = Inr (ntwk_set result ! k)))
       \<and> (\<not> isinstance_Network obj \<longrightarrow>
             apply_operator N cls opn self (Obj_Operand obj) =
               (Inl (TypeError
                  ''NetworkSet operators operate on either Network, or NetworkSet types''),
                cls))"
proof -
  note init = NetworkSet_init_Inr [OF assms(1)]
  let ?n = "length (ntwk_set self)"
  let ?f = "\<lambda>ntwk. call_operator N opn ntwk (Network n)"
  have nonempty: "0 < ?n"
    using init(1,3) by auto
  have ap: "apply_operator N cls opn self (Obj_Operand (Network n)) =
     (case comprehension ?f (ntwk_set self) of
        Inl e \<Rightarrow> (Inl e, cls)
      | Inr results \<Rightarrow> NetworkSet_init N cls results None)"
    unfolding init(2) apply_operator_generated [OF assms(2)] by (rule operator_func_network)
  show ?thesis
  proof (intro conjI impI)
    assume h: "length rs = ?n
            \<and> (\<forall>k<?n. ?f (ntwk_set self ! k) = Inr (Network (rs ! k)))
            \<and> (\<forall>k<length rs. number_of_ports (rs ! k) = number_of_ports (rs ! 0)
                              \<and> frequency_eq N (frequency (rs ! 0)) (frequency (rs ! k)))"
    then have "comprehension ?f (ntwk_set self) = Inr (map Network rs)"
      unfolding comprehension_Inr_iff by simp
    moreover have "rs \<noteq> []"
      using h nonempty by auto
    then have "NetworkSet_init N cls (map Network rs) None
           = (Inr \<lparr>ntwk_set = map Network rs, name = None\<rparr>, generate cls)"
      using h by (simp add: NetworkSet_init_accepts)
    moreover have "generate cls = cls"
      unfolding init(2) by (rule generate_idem)
    ultimately show "apply_operator N cls opn self (Obj_Operand (Network n)) =
                (Inr \<lparr>ntwk_set = map Network rs, name = None\<rparr>, cls)"
      unfolding ap by simp
  next
    assume r: "fst (apply_operator N cls opn self (Obj_Operand (Network n))) = Inr result"
    then obtain results where c: "comprehension ?f (ntwk_set self) = Inr results"
      and i: "fst (NetworkSet_init N cls results None) = Inr result"
      unfolding ap by (cases "comprehension ?f (ntwk_set self)") simp_all
    have "ntwk_set result = results"
      using NetworkSet_init_fst_Inr [OF i] by simp
    then show "length (ntwk_set result) = ?n"
      and "\<forall>k<?n. ?f (ntwk_set self ! k) = Inr (ntwk_set result ! k)"
      using c unfolding comprehension_Inr_iff by simp_all
  next
    assume "\<not> isinstance_Network obj"
    then obtain p f where "obj = Object p f"
      by (cases obj) auto
    then show "apply_operator N cls opn self (Obj_Operand obj) =
               (Inl (TypeError
                  ''NetworkSet operators operate on either Network, or NetworkSet types''),
                cls)"
      unfolding init(2) apply_operator_generated [OF assms(2)]
      by (simp only: operator_func_object)
  qed
qed

theorem operator_on_set_and_object_witness:
  "apply_operator example_class (generate class_definition) ''__add__'' example_set
       (Obj_Operand (Network (one_port 1)))
     = (Inr \<lparr>ntwk_set = map Network [one_port 2, one_port 101], name = None\<rparr>,
        generate class_definition)
   \<and> call_operator example_class ''__add__'' (ntwk_set example_set ! 1)
        (Network (one_port 1)) = Inr (Network (one_port 101))
   \<and> apply_operator example_class (generate class_definition) ''__add__'' example_set
       (Obj_Operand (Object None None))
     = (Inl (TypeError ''NetworkSet operators operate on either Network, or NetworkSet types''),
        generate class_definition)"
proof -
  let ?cls = "generate class_definition"
  let ?rs = "[one_port 2, one_port 101]"
  let ?result = "\<lparr>ntwk_set = map Network ?rs, name = None\<rparr>"
  note inst = operator_on_set_and_object [OF example_set_init add_in_operator_names]
  have "length ?rs = length (ntwk_set example_set)
            \<and> (\<forall>k<length (ntwk_set example_set).
                  call_operator example_class ''__add__'' (ntwk_set example_set ! k)
                    (Network (one_port 1)) = Inr (Network (?rs ! k)))
            \<and> (\<forall>k<length ?rs. number_of_ports (?rs ! k) = number_of_ports (?rs ! 0)
                  \<and> frequency_eq example_class (frequency (?rs ! 0)) (frequency (?rs ! k)))"
    by (simp add: example_set_def less_Suc_eq_0_disj example_class_def example_operator_def
        one_port_def)
  with inst [of ?rs "one_port 1", THEN conjunct1]
  have 1: "apply_operator example_class ?cls ''__add__'' example_set
             (Obj_Operand (Network (one_port 1))) = (Inr ?result, ?cls)"
    by (rule mp)
  then have "fst (apply_operator example_class ?cls ''__add__'' example_set
               (Obj_Operand (Network (one_port 1)))) = Inr ?result"
    by simp
  with inst [of _ "one_port 1" ?result, THEN conjunct2, THEN conjunct1]
  have "length (ntwk_set ?result) = length (ntwk_set example_set)
          \<and> (\<forall>k<length (ntwk_set example_set).
                call_operator example_class ''__add__'' (ntwk_set example_set ! k)
                  (Network (one_port 1)) = Inr (ntwk_set ?result ! k))"
    by (rule mp)
  moreover have "1 < length (ntwk_set example_set)"
    by (simp add: example_set_def)
  ultimately have "call_operator example_class ''__add__'' (ntwk_set example_set ! 1)
        (Network (one_port 1)) = Inr (ntwk_set ?result ! 1)"
    by blast
  then have 2: "call_operator example_class ''__add__'' (ntwk_set example_set ! 1)
        (Network (one_port 1)) = Inr (Network (one_port 101))"
    by simp
  have "\<not> isinstance_Network (Object None None)"
    by simp
  with inst [of _ _ _ "Object None None", THEN conjunct2, THEN conjunct2]
  have 3: "apply_operator example_class ?cls ''__add__'' example_set
             (Obj_Operand (Object None None))
     = (Inl (TypeError ''NetworkSet operators operate on either Network, or NetworkSet types''),
        ?cls)"
    by (rule mp)
  from 1 2 3 show ?thesis by (intro conjI)
qed

text \<open>
  C5. Built from a non-empty collection of networks, the constructor raises a
  configuration error when two members differ in their port count, and when the
  frequency axis of some member is not equal to that of the first; when all members
  agree on both, it succeeds and stores the collection and the name as given.
\<close>

theorem NetworkSet_init_validates:
  assumes "ns \<noteq> []"
  shows "((\<exists>i<length ns. \<exists>j<length ns. number_of_ports (ns ! i) \<noteq> number_of_ports (ns ! j))
            \<longrightarrow> NetworkSet_init N cls (map Network ns) nm =
                  (Inl (ValueError
                     ''All elements in list of Networks must have same number of ports''), cls))
       \<and> ((\<exists>k<length ns. \<not> frequency_eq N (frequency (ns ! 0)) (frequency (ns ! k)))
            \<longrightarrow> (\<exists>msg. NetworkSet_init N cls (map Network ns) nm = (Inl (ValueError msg), cls)))
       \<and> ((\<forall>i<length ns. \<forall>j<length ns. number_of_ports (ns ! i) = number_of_ports (ns ! j))
            \<and> (\<forall>k<length ns. frequency_eq N (frequency (ns ! 0)) (frequency (ns ! k)))
            \<longrightarrow> fst (NetworkSet_init N cls (map Network ns) nm) =
                  Inr \<lparr>ntwk_set = map Network ns, name = nm\<rparr>)"
proof -
  have ports: "1 < length (remdups (map number_of_ports ns)) \<longleftrightarrow>
      (\<exists>i<length ns. \<exists>j<length ns. number_of_ports (ns ! i) \<noteq> number_of_ports (ns ! j))"
    unfolding several_values_iff by (simp cong: conj_cong)
  have freqs: "list_all (\<lambda>n. frequency_eq N (frequency (hd ns)) (frequency n)) ns \<longleftrightarrow>
      (\<forall>k<length ns. frequency_eq N (frequency (ns ! 0)) (frequency (ns ! k)))"
    using assms by (simp add: list_all_length hd_conv_nth)
  show ?thesis
  proof (intro conjI impI)
    assume "\<exists>i<length ns. \<exists>j<length ns. number_of_ports (ns ! i) \<noteq> number_of_ports (ns ! j)"
    then show "NetworkSet_init N cls (map Network ns) nm =
                 (Inl (ValueError
                    ''All elements in list of Networks must have same number of ports''), cls)"
      by (simp only: NetworkSet_init_networks [OF assms] ports if_True)
  next
    assume "\<exists>k<length ns. \<not> frequency_eq N (frequency (ns ! 0)) (frequency (ns ! k))"
    then have "\<not> list_all (\<lambda>n. frequency_eq N (frequency (hd ns)) (frequency n)) ns"
      unfolding freqs by blast
    then show "\<exists>msg. NetworkSet_init N cls (map Network ns) nm = (Inl (ValueError msg), cls)"
      by (simp only: NetworkSet_init_networks [OF assms] not_False_eq_True if_True split: if_split)
        blast
  next
    assume "(\<forall>i<length ns. \<forall>j<length ns. number_of_ports (ns ! i) = number_of_ports (ns ! j))
            \<and> (\<forall>k<length ns. frequency_eq N (frequency (ns ! 0)) (frequency (ns ! k)))"
    then have "\<not> 1 < length (remdups (map number_of_ports ns))"
      and "list_all (\<lambda>n. frequency_eq N (frequency (hd ns)) (frequency n)) ns"
      unfolding ports freqs by blast+
    then show "fst (NetworkSet_init N cls (map Network ns) nm) =
                  Inr \<lparr>ntwk_set = map Network ns, name = nm\<rparr>"
      by (simp only: NetworkSet_init_networks [OF assms] if_False not_True_eq_False fst_conv)
  qed
qed

theorem NetworkSet_init_validates_witness:
  "NetworkSet_init example_class class_definition
       (map Network [one_port 1, (one_port 2)\<lparr>number_of_ports := 2\<rparr>]) None
     = (Inl (ValueError ''All elements in list of Networks must have same number of ports''),
        class_definition)
   \<and> (\<exists>msg. NetworkSet_init example_class class_definition
       (map Network [one_port 1, (one_port 2)\<lparr>frequency := [2]\<rparr>]) None
     = (Inl (ValueError msg), class_definition))
   \<and> fst (NetworkSet_init example_class class_definition
       (map Network [one_port 1, one_port 100]) (Some ''dut''))
     = Inr \<lparr>ntwk_set = map Network [one_port 1, one_port 100], name = Some ''dut''\<rparr>"
proof -
  let ?a = "[one_port 1, (one_port 2)\<lparr>number_of_ports := 2\<rparr>]"
  let ?b = "[one_port 1, (one_port 2)\<lparr>frequency := [2]\<rparr>]"
  let ?c = "[one_port 1, one_port 100]"
  have a: "\<exists>i<length ?a. \<exists>j<length ?a. number_of_ports (?a ! i) \<noteq> number_of_ports (?a ! j)"
    by (rule exI [of _ 0], simp, rule exI [of _ 1], simp add: one_port_def)
  have b: "\<exists>k<length ?b. \<not> frequency_eq example_class (frequency (?b ! 0)) (frequency (?b ! k))"
    by (rule exI [of _ 1]) (simp add: one_port_def example_class_def)
  have c: "(\<forall>i<length ?c. \<forall>j<length ?c. number_of_ports (?c ! i) = number_of_ports (?c ! j))
       \<and> (\<forall>k<length ?c. frequency_eq example_class (frequency (?c ! 0)) (frequency (?c ! k)))"
    by (simp add: one_port_def example_class_def less_Suc_eq_0_disj)
  have "?a \<noteq> []" and "?b \<noteq> []" and "?c \<noteq> []" by simp_all
  note va = NetworkSet_init_validates [OF \<open>?a \<noteq> []\<close>, of example_class class_definition None]
    and vb = NetworkSet_init_validates [OF \<open>?b \<noteq> []\<close>, of example_class class_definition None]
    and vc = NetworkSet_init_validates [OF \<open>?c \<noteq> []\<close>, of example_class class_definition
        "Some ''dut''"]
  show ?thesis
  proof (intro conjI)
    show "NetworkSet_init example_class class_definition (map Network ?a) None
            = (Inl (ValueError
                 ''All elements in list of Networks must have same number of ports''),
               class_definition)"
      using conjunct1 [OF va] a by (rule mp)
    show "\<exists>msg. NetworkSet_init example_class class_definition (map Network ?b) None
            = (Inl (ValueError msg), class_definition)"
      using conjunct1 [OF conjunct2 [OF vb]] b by (rule mp)
    show "fst (NetworkSet_init example_class class_definition (map Network ?c) (Some ''dut''))
            = Inr \<lparr>ntwk_set = map Network ?c, name = Some ''dut''\<rparr>"
      using conjunct2 [OF conjunct2 [OF vc]] c by (rule mp)
  qed
qed

text \<open>
  C6. For a set the constructor accepted and an attribute of the enumerated list,
  \<^verbatim>\<open>uncertainty_ntwk_triplet\<close> returns the mean network, the mean network minus the
  standard deviation network scaled by \<open>n\<close>, and the mean network plus it, in this
  order; mean and standard deviation are the generated properties of the set, sum and
  difference are those of the network class. Left out, \<open>n\<close> is 3.
\<close>

theorem uncertainty_ntwk_triplet_bounds:
  assumes "NetworkSet_init N cls0 ntwks nm = (Inr self, cls)"
    and "a \<in> set property_names"
    and "getattr_generated N cls self (''mean_'' @ a) = Inr (Network m)"
    and "getattr_generated N cls self (''std_'' @ a) = Inr (Network sd)"
    and "net_operator N ''__sub__'' m
           (Network (sd\<lparr>s := map (\<lambda>z. of_real n * z) (s sd)\<rparr>)) = Inr lower_bound"
    and "net_operator N ''__add__'' m
           (Network (sd\<lparr>s := map (\<lambda>z. of_real n * z) (s sd)\<rparr>)) = Inr upper_bound"
  shows "uncertainty_ntwk_triplet N cls self a (Some n)
           = Inr (Network m, lower_bound, upper_bound)
       \<and> uncertainty_ntwk_triplet N cls self a None
           = uncertainty_ntwk_triplet N cls self a (Some 3)"
proof -
  note init = NetworkSet_init_Inr [OF assms(1)]
  have "cls (func_name Mean @ ''_'' @ a) = Some (Func_On_Property Mean a)"
    and "cls (func_name Std @ ''_'' @ a) = Some (Func_On_Property Std a)"
    unfolding init(2) using assms(2) by (rule generate_func_on_property)+
  then have "cls (''mean_'' @ a) = Some (Func_On_Property Mean a)"
    and "cls (''std_'' @ a) = Some (Func_On_Property Std a)"
    by simp_all
  then have "getattr_statistic N cls self (''mean_'' @ a) = Inr (Network m)"
    and "getattr_statistic N cls self (''std_'' @ a) = Inr (Network sd)"
    unfolding getattr_statistic_def using assms(3,4) by simp_all
  then have "uncertainty_ntwk_triplet N cls self a (Some n)
           = Inr (Network m, lower_bound, upper_bound)"
    unfolding uncertainty_ntwk_triplet_def
    by (simp add: scale_s_def binary_def assms(5,6))
  moreover have "uncertainty_ntwk_triplet N cls self a None
           = uncertainty_ntwk_triplet N cls self a (Some 3)"
    unfolding uncertainty_ntwk_triplet_def by simp
  ultimately show ?thesis by (rule conjI)
qed

theorem uncertainty_ntwk_triplet_bounds_witness:
  "uncertainty_ntwk_triplet example_class (generate class_definition) example_set
     ''s_mag'' (Some 2)
   = Inr (Network (one_port (101 / 2)),
          Network (one_port (101 / 2 - 2 * npy_std [1, 100])),
          Network (one_port (101 / 2 + 2 * npy_std [1, 100])))
   \<and> uncertainty_ntwk_triplet example_class (generate class_definition) example_set
       ''s_mag'' None
     = uncertainty_ntwk_triplet example_class (generate class_definition) example_set
       ''s_mag'' (Some 3)"
proof -
  let ?cls = "generate class_definition"
  let ?sd = "(one_port (npy_std [1, 100]))
               \<lparr>s := map (\<lambda>z. of_real 2 * z) (s (one_port (npy_std [1, 100])))\<rparr>"
  have a: "''s_mag'' \<in> set property_names"
    by (simp add: property_names_def)
  have "?cls (func_name Mean @ ''_'' @ ''s_mag'') = Some (Func_On_Property Mean ''s_mag'')"
    and "?cls (func_name Std @ ''_'' @ ''s_mag'') = Some (Func_On_Property Std ''s_mag'')"
    using a by (rule generate_func_on_property)+
  then have km: "?cls (''mean_'' @ ''s_mag'') = Some (Func_On_Property Mean ''s_mag'')"
    and ks: "?cls (''std_'' @ ''s_mag'') = Some (Func_On_Property Std ''s_mag'')"
    by simp_all
  have m: "getattr_generated example_class ?cls example_set (''mean_'' @ ''s_mag'')
               = Inr (Network (one_port (101 / 2)))"
    using km example_mean_s_mag by (rule getattr_generated_property)
  have sd: "getattr_generated example_class ?cls example_set (''std_'' @ ''s_mag'')
               = Inr (Network (one_port (npy_std [1, 100])))"
    using ks example_std_s_mag by (rule getattr_generated_property)
  have lo: "net_operator example_class ''__sub__'' (one_port (101 / 2)) (Network ?sd)
              = Inr (Network (one_port (101 / 2 - 2 * npy_std [1, 100])))"
    by (simp add: example_class_def example_operator_def one_port_def)
  have up: "net_operator example_class ''__add__'' (one_port (101 / 2)) (Network ?sd)
              = Inr (Network (one_port (101 / 2 + 2 * npy_std [1, 100])))"
    by (simp add: example_class_def example_operator_def one_port_def)
  show ?thesis
    using example_set_init a m sd lo up by (rule uncertainty_ntwk_triplet_bounds)
qed

text \<open>
  C7 as the code has it. For a set the constructor accepted, each generated
  elementwise method calls the method of its name on every member with the arguments
  given. The first result alone decides what is returned: when it is a network, all
  results are passed to the constructor, which returns the new set when every result is
  a network and the results agree on port count and frequency axis; when it is no
  network, the plain list of results is returned.
\<close>

theorem element_wise_first_result_decides:
  assumes "NetworkSet_init N cls0 ntwks nm = (Inr self, cls)"
    and "m \<in> set element_wise_names"
    and "length outs = length (ntwk_set self)"
    and "\<forall>k<length (ntwk_set self). call_method N m args (ntwk_set self ! k) = Inr (outs ! k)"
  shows "call_element_wise N cls self m args =
           Some (if isinstance_Network (outs ! 0)
                 then (case NetworkSet_init N cls outs None of
                         (Inl e, c) \<Rightarrow> (Inl e, c)
                       | (Inr r, c) \<Rightarrow> (Inr (Set_Result r), c))
                 else (Inr (List_Result outs), cls))
       \<and> ((\<exists>rs. outs = map Network rs
              \<and> (\<forall>k<length rs. number_of_ports (rs ! k) = number_of_ports (rs ! 0)
                                \<and> frequency_eq N (frequency (rs ! 0)) (frequency (rs ! k))))
            \<longrightarrow> call_element_wise N cls self m args =
                  Some (Inr (Set_Result \<lparr>ntwk_set = outs, name = None\<rparr>), cls))
       \<and> (\<not> isinstance_Network (outs ! 0)
            \<longrightarrow> call_element_wise N cls self m args = Some (Inr (List_Result outs), cls))"
proof -
  note init = NetworkSet_init_Inr [OF assms(1)]
  have nonempty: "outs \<noteq> []"
    using init(1,3) assms(3) by auto
  have "comprehension (call_method N m args) (ntwk_set self) = Inr outs"
    unfolding comprehension_Inr_iff using assms(3,4) by simp
  from element_wise_method_outs [OF this nonempty, of "generate cls0"]
  have ew: "call_element_wise N cls self m args =
           Some (if isinstance_Network (outs ! 0)
                 then (case NetworkSet_init N cls outs None of
                         (Inl e, c) \<Rightarrow> (Inl e, c)
                       | (Inr r, c) \<Rightarrow> (Inr (Set_Result r), c))
                 else (Inr (List_Result outs), cls))"
    unfolding init(2) call_element_wise_generated [OF assms(2)]
    by (rule arg_cong [where f = Some])
  have idem: "generate cls = cls"
    unfolding init(2) by (rule generate_idem)
  show ?thesis
  proof (intro conjI impI)
    show "call_element_wise N cls self m args =
           Some (if isinstance_Network (outs ! 0)
                 then (case NetworkSet_init N cls outs None of
                         (Inl e, c) \<Rightarrow> (Inl e, c)
                       | (Inr r, c) \<Rightarrow> (Inr (Set_Result r), c))
                 else (Inr (List_Result outs), cls))"
      by (rule ew)
  next
    assume "\<exists>rs. outs = map Network rs
              \<and> (\<forall>k<length rs. number_of_ports (rs ! k) = number_of_ports (rs ! 0)
                                \<and> frequency_eq N (frequency (rs ! 0)) (frequency (rs ! k)))"
    then obtain rs where rs: "outs = map Network rs"
      and ok: "\<forall>k<length rs. number_of_ports (rs ! k) = number_of_ports (rs ! 0)
                                \<and> frequency_eq N (frequency (rs ! 0)) (frequency (rs ! k))"
      by blast
    have "rs \<noteq> []"
      using nonempty rs by auto
    then have "NetworkSet_init N cls (map Network rs) None
           = (Inr \<lparr>ntwk_set = map Network rs, name = None\<rparr>, generate cls)"
      using ok by (rule NetworkSet_init_accepts)
    then have accepted: "NetworkSet_init N cls (map Network rs) None
           = (Inr \<lparr>ntwk_set = map Network rs, name = None\<rparr>, cls)"
      unfolding idem .
    have first: "isinstance_Network (map Network rs ! 0)"
      using \<open>rs \<noteq> []\<close> by (cases rs) simp_all
    show "call_element_wise N cls self m args =
                  Some (Inr (Set_Result \<lparr>ntwk_set = outs, name = None\<rparr>), cls)"
      unfolding ew rs by (simp only: first accepted if_True prod.case sum.case)
  next
    assume "\<not> isinstance_Network (outs ! 0)"
    then show "call_element_wise N cls self m args = Some (Inr (List_Result outs), cls)"
      unfolding ew by simp
  qed
qed

theorem element_wise_first_result_decides_witness:
  "call_element_wise example_class (generate class_definition) example_set
       ''interpolate'' [5]
     = Some (Inr (Set_Result
               \<lparr>ntwk_set = [Network ((one_port 1)\<lparr>frequency := [5]\<rparr>),
                            Network ((one_port 100)\<lparr>frequency := [5]\<rparr>)],
                name = None\<rparr>),
             generate class_definition)
   \<and> call_element_wise example_class (generate class_definition) example_set
       ''write_touchstone'' []
     = Some (Inr (List_Result [Object None None, Object None None]),
             generate class_definition)"
proof -
  let ?cls = "generate class_definition"
  let ?rs = "[(one_port 1)\<lparr>frequency := [5]\<rparr>, (one_port 100)\<lparr>frequency := [5]\<rparr>]"
  let ?outs = "[Network ((one_port 1)\<lparr>frequency := [5]\<rparr>),
                Network ((one_port 100)\<lparr>frequency := [5]\<rparr>)]"
  let ?nones = "[Object None None, Object None None]"
  have len: "length ?outs = length (ntwk_set example_set)"
    by (simp add: example_set_def)
  have calls: "\<forall>k<length (ntwk_set example_set).
      call_method example_class ''interpolate'' [5] (ntwk_set example_set ! k) = Inr (?outs ! k)"
    by (simp add: example_set_def less_Suc_eq_0_disj example_class_def example_method_def)
  have "\<exists>rs. ?outs = map Network rs
          \<and> (\<forall>k<length rs. number_of_ports (rs ! k) = number_of_ports (rs ! 0)
                \<and> frequency_eq example_class (frequency (rs ! 0)) (frequency (rs ! k)))"
    by (rule exI [of _ ?rs])
      (simp add: less_Suc_eq_0_disj example_class_def one_port_def)
  with element_wise_first_result_decides
    [OF example_set_init interpolate_element_wise len calls, THEN conjunct2, THEN conjunct1]
  have 1: "call_element_wise example_class ?cls example_set ''interpolate'' [5]
             = Some (Inr (Set_Result \<lparr>ntwk_set = ?outs, name = None\<rparr>), ?cls)"
    by (rule mp)
  have len': "length ?nones = length (ntwk_set example_set)"
    by (simp add: example_set_def)
  have calls': "\<forall>k<length (ntwk_set example_set).
      call_method example_class ''write_touchstone'' [] (ntwk_set example_set ! k)
        = Inr (?nones ! k)"
    by (simp add: example_set_def less_Suc_eq_0_disj example_class_def example_method_def)
  have "\<not> isinstance_Network (?nones ! 0)"
    by simp
  with element_wise_first_result_decides
    [OF example_set_init write_touchstone_element_wise len' calls',
      THEN conjunct2, THEN conjunct2]
  have 2: "call_element_wise example_class ?cls example_set ''write_touchstone'' []
             = Some (Inr (List_Result ?nones), ?cls)"
    by (rule mp)
  from 1 2 show ?thesis by (intro conjI)
qed

text \<open>
  C7 as stated fails. The two members of \<open>mixed_set\<close> form a set the constructor
  accepts; \<^verbatim>\<open>interpolate\<close> returns a network for the first and \<^verbatim>\<open>None\<close> for the
  second. Not every result is a network, yet the plain list of the results is not what
  the call returns: the first result is a network, so the results go to the
  constructor, which raises.
\<close>

theorem element_wise_mixed_results_counterexample:
  "NetworkSet_init mixed_class class_definition (ntwk_set mixed_set) None
     = (Inr mixed_set, generate class_definition)
   \<and> comprehension (call_method mixed_class ''interpolate'' []) (ntwk_set mixed_set)
     = Inr [Network ((one_port 1)\<lparr>ntwk_name := Some ''a''\<rparr>), Object None None]
   \<and> call_element_wise mixed_class (generate class_definition) mixed_set ''interpolate'' []
     = Some (Inl (AttributeError ''number_of_ports''), generate class_definition)
   \<and> call_element_wise mixed_class (generate class_definition) mixed_set ''interpolate'' []
     \<noteq> Some (Inr (List_Result
                  [Network ((one_port 1)\<lparr>ntwk_name := Some ''a''\<rparr>), Object None None]),
             generate class_definition)"
proof -
  let ?cls = "generate class_definition"
  let ?outs = "[Network ((one_port 1)\<lparr>ntwk_name := Some ''a''\<rparr>), Object None None]"
  have c: "comprehension (call_method mixed_class ''interpolate'' []) (ntwk_set mixed_set)
             = Inr ?outs"
    by (simp add: mixed_set_def mixed_class_def named_or_none_def one_port_def)
  have i: "NetworkSet_init mixed_class ?cls ?outs None
             = (Inl (AttributeError ''number_of_ports''), ?cls)"
    by (simp add: NetworkSet_init_def)
  have "element_wise_method mixed_class ?cls mixed_set ''interpolate'' []
          = (Inl (AttributeError ''number_of_ports''), ?cls)"
    unfolding element_wise_method_outs [OF c, of ?cls, simplified] i by simp
  then have r: "call_element_wise mixed_class ?cls mixed_set ''interpolate'' []
          = Some (Inl (AttributeError ''number_of_ports''), ?cls)"
    unfolding call_element_wise_generated [OF interpolate_element_wise] by simp
  from mixed_set_init c r show ?thesis by simp
qed






text \<open>
  C10. \<^verbatim>\<open>from_zip\<close> takes further positional and keyword arguments and does not use
  them: the result is the same for any two choices of them, a set that is returned has
  the name \<open>None\<close>, and when the archive opens and every entry reads as a network
  the result is that of the constructor on these networks with the name \<open>None\<close>.
\<close>

theorem from_zip_drops_arguments:
  "from_zip N ZipFile cls zip_file_name args kwargs
     = from_zip N ZipFile cls zip_file_name args' kwargs'
   \<and> (fst (from_zip N ZipFile cls zip_file_name args kwargs) = Inr result
        \<longrightarrow> name result = None)
   \<and> (ZipFile zip_file_name = Inr z \<and> length ns = length z
        \<and> (\<forall>k<length z. \<exists>file. zip_open z (fst (z ! k)) = Inr file
                                 \<and> read_touchstone N file = Inr (ns ! k))
      \<longrightarrow> from_zip N ZipFile cls zip_file_name args kwargs
            = NetworkSet_init N cls (map Network ns) None)"
proof (intro conjI impI)
  show "from_zip N ZipFile cls zip_file_name args kwargs
     = from_zip N ZipFile cls zip_file_name args' kwargs'"
    by (simp add: from_zip_def)
next
  assume "fst (from_zip N ZipFile cls zip_file_name args kwargs) = Inr result"
  then show "name result = None"
    by (rule from_zip_name)
next
  assume "ZipFile zip_file_name = Inr z \<and> length ns = length z
        \<and> (\<forall>k<length z. \<exists>file. zip_open z (fst (z ! k)) = Inr file
                                 \<and> read_touchstone N file = Inr (ns ! k))"
  then show "from_zip N ZipFile cls zip_file_name args kwargs
            = NetworkSet_init N cls (map Network ns) None"
    using from_zip_opened by blast
qed

theorem from_zip_drops_arguments_witness:
  "from_zip example_class example_ZipFile class_definition ''myzip.zip''
       [''dut''] [(''name'', ''dut'')]
     = (Inr \<lparr>ntwk_set =
               [Network \<lparr>number_of_ports = 1, frequency = [0], s = [120], ntwk_name = None\<rparr>,
                Network \<lparr>number_of_ports = 1, frequency = [0], s = [121], ntwk_name = None\<rparr>],
             name = None\<rparr>,
        generate class_definition)"
proof -
  let ?z = "[(''a.s1p'', ''x''), (''b.s1p'', ''y'')]"
  let ?ns = "[\<lparr>number_of_ports = 1, frequency = [0], s = [120], ntwk_name = None\<rparr>,
              \<lparr>number_of_ports = 1, frequency = [0], s = [121], ntwk_name = None\<rparr>]"
  have "example_ZipFile ''myzip.zip'' = Inr ?z \<and> length ?ns = length ?z
        \<and> (\<forall>k<length ?z. \<exists>file. zip_open ?z (fst (?z ! k)) = Inr file
                                 \<and> read_touchstone example_class file = Inr (?ns ! k))"
    by (simp add: example_ZipFile_def less_Suc_eq_0_disj zip_open_def example_class_def
        example_touchstone_def)
  with from_zip_drops_arguments
    [of example_class example_ZipFile class_definition "''myzip.zip''"
      "[''dut'']" "[(''name'', ''dut'')]" "[]" "[]" _ ?z ?ns, THEN conjunct2, THEN conjunct2]
  have "from_zip example_class example_ZipFile class_definition ''myzip.zip''
          [''dut''] [(''name'', ''dut'')]
        = NetworkSet_init example_class class_definition (map Network ?ns) None"
    by (rule mp)
  moreover have "NetworkSet_init example_class class_definition (map Network ?ns) None
        = (Inr \<lparr>ntwk_set = map Network ?ns, name = None\<rparr>, generate class_definition)"
    by (rule NetworkSet_init_accepts)
      (simp_all add: less_Suc_eq_0_disj example_class_def)
  ultimately show ?thesis by simp
qed

end
